theory Spec2Isabelle
  imports Complex_Main
begin

section \<open>Amounts, timestamps and the calendar\<close>

text \<open>
  The forecaster of \<^verbatim>\<open>src/Wcf.py\<close> computes with IEEE doubles. An amount is modelled as
  a \<^typ>\<open>real option\<close>: \<open>Some x\<close> is the number \<open>x\<close> (rounding is idealised away),
  \<open>None\<close> is a value that is not a finite number (the \<^verbatim>\<open>NaN\<close> that pandas returns for
  the mean of an empty selection, and whatever arithmetic makes of it). Arithmetic
  propagates \<open>None\<close>, as the doubles propagate \<^verbatim>\<open>NaN\<close>.
\<close>

type_synonym pyfloat = "real option"

definition fadd :: "pyfloat \<Rightarrow> pyfloat \<Rightarrow> pyfloat" where
  "fadd a b = (case a of None \<Rightarrow> None | Some x \<Rightarrow> (case b of None \<Rightarrow> None | Some y \<Rightarrow> Some (x + y)))"

definition fsub :: "pyfloat \<Rightarrow> pyfloat \<Rightarrow> pyfloat" where
  "fsub a b = (case a of None \<Rightarrow> None | Some x \<Rightarrow> (case b of None \<Rightarrow> None | Some y \<Rightarrow> Some (x - y)))"

definition fmul :: "pyfloat \<Rightarrow> pyfloat \<Rightarrow> pyfloat" where
  "fmul a b = (case a of None \<Rightarrow> None | Some x \<Rightarrow> (case b of None \<Rightarrow> None | Some y \<Rightarrow> Some (x * y)))"

text \<open>Division of doubles by zero gives \<^verbatim>\<open>NaN\<close> or an infinity, never an exception.\<close>

definition fdiv :: "pyfloat \<Rightarrow> pyfloat \<Rightarrow> pyfloat" where
  "fdiv a b = (case a of None \<Rightarrow> None | Some x \<Rightarrow>
     (case b of None \<Rightarrow> None | Some y \<Rightarrow> (if y = 0 then None else Some (x / y))))"

text \<open>\<^verbatim>\<open>pd.isna\<close> on a scalar amount.\<close>

definition isna :: "pyfloat \<Rightarrow> bool" where
  "isna a = (a = None)"

text \<open>\<^verbatim>\<open>Series.mean()\<close>: the mean of an empty selection is \<^verbatim>\<open>NaN\<close>.\<close>

definition mean :: "real list \<Rightarrow> pyfloat" where
  "mean xs = (if xs = [] then None else Some (sum_list xs / real (length xs)))"

text \<open>
  A timestamp is a count of nanoseconds since 1970-01-01 00:00, as in pandas; a
  \<^verbatim>\<open>timedelta\<close> is a difference of two of them.
\<close>

type_synonym timestamp = int

definition ns_per_day :: int where
  "ns_per_day = 86400000000000"

definition timedelta :: "int \<Rightarrow> int \<Rightarrow> int" where
  \<comment> \<open>\<^verbatim>\<open>timedelta(weeks=w, days=d)\<close>\<close>
  "timedelta w d = (w * 7 + d) * ns_per_day"

definition td_days :: "int \<Rightarrow> int" where
  \<comment> \<open>\<^verbatim>\<open>Timedelta.days\<close>: whole days, rounded towards minus infinity\<close>
  "td_days td = td div ns_per_day"

definition toordinal :: "timestamp \<Rightarrow> int" where
  \<comment> \<open>proleptic Gregorian ordinal of the timestamp's date; 1970-01-01 is day 719163\<close>
  "toordinal ts = ts div ns_per_day + 719163"

definition weekday :: "timestamp \<Rightarrow> int" where
  \<comment> \<open>Monday is 0, Sunday is 6\<close>
  "weekday ts = (toordinal ts + 6) mod 7"

definition days_before_year :: "int \<Rightarrow> int" where
  "days_before_year year = (let y = year - 1 in y * 365 + y div 4 - y div 100 + y div 400)"

definition ord2year :: "int \<Rightarrow> int" where
  "ord2year ordinal =
     (let n = ordinal - 1;
          n400 = n div 146097; n = n mod 146097;
          n100 = n div 36524; n = n mod 36524;
          n4 = n div 1461; n = n mod 1461;
          n1 = n div 365;
          year = n400 * 400 + 1 + n100 * 100 + n4 * 4 + n1
      in if n1 = 4 \<or> n100 = 4 then year - 1 else year)"

definition isoweek1monday :: "int \<Rightarrow> int" where
  "isoweek1monday year =
     (let firstday = days_before_year year + 1;
          firstweekday = (firstday + 6) mod 7;
          week1monday = firstday - firstweekday
      in if firstweekday > 3 then week1monday + 7 else week1monday)"

definition iso_week :: "timestamp \<Rightarrow> int" where
  \<comment> \<open>\<^verbatim>\<open>isocalendar()[1]\<close>, the ISO 8601 week number, after the standard library\<close>
  "iso_week ts =
     (let today = toordinal ts;
          year = ord2year today;
          week = (today - isoweek1monday year) div 7
      in if week < 0 then (today - isoweek1monday (year - 1)) div 7 + 1
         else if week \<ge> 52 \<and> today \<ge> isoweek1monday (year + 1) then 1
         else week + 1)"

definition to_period_W :: "timestamp \<Rightarrow> int" where
  \<comment> \<open>\<^verbatim>\<open>dt.to_period('W')\<close>: the Monday-to-Sunday week of the date, named by its Monday\<close>
  "to_period_W ts = toordinal ts - weekday ts"

text \<open>
  \<^verbatim>\<open>pd.date_range(start, periods, freq='W-MON')\<close>: the start is rolled forward to a
  Monday (it stays where it is when it falls on one, the time of day is kept), and the
  range steps by one week.
\<close>

definition rollforward_MON :: "timestamp \<Rightarrow> timestamp" where
  "rollforward_MON start = start + ((0 - weekday start) mod 7) * ns_per_day"

definition date_range_W_MON :: "timestamp \<Rightarrow> nat \<Rightarrow> timestamp list" where
  "date_range_W_MON start periods =
     map (\<lambda>k. rollforward_MON start + timedelta (int k) 0) [0..<periods]"

section \<open>The historical data and the forecaster\<close>

record transaction =
  date :: timestamp
  category :: string
  amount :: real
  payment_terms :: string

record hist_row = transaction +
  week :: int

record collection_patterns_t =
  current :: real
  week_1 :: real
  week_2 :: real
  week_3 :: real
  week_4 :: real

record forecaster =
  historical :: "hist_row list"
  collection_patterns :: collection_patterns_t
  payment_patterns :: "(string \<times> string list) list"

definition calculate_collection_patterns :: "hist_row list \<Rightarrow> collection_patterns_t" where
  "calculate_collection_patterns hist =
     (let ar_data = filter (\<lambda>r. category r = ''AR Collections'') hist
      in if length ar_data = 0
         then \<lparr>current = 0.30, week_1 = 0.40, week_2 = 0.20, week_3 = 0.08, week_4 = 0.02\<rparr>
         else \<lparr>current = 0.30, week_1 = 0.40, week_2 = 0.20, week_3 = 0.08, week_4 = 0.02\<rparr>)"

definition calculate_payment_patterns :: "(string \<times> string list) list" where
  "calculate_payment_patterns =
     [(''immediate'', [''Payroll'', ''Rent'', ''Utilities'']),
      (''net_30'', [''Marketing'', ''Software'', ''Professional Services'']),
      (''net_15'', [''Supplies'', ''Travel''])]"

definition init :: "transaction list \<Rightarrow> forecaster" where
  \<comment> \<open>\<^verbatim>\<open>CashFlowForecaster.__init__\<close>\<close>
  "init historical_data =
     (let hist = map (\<lambda>t. \<lparr>date = date t, category = category t, amount = amount t,
                            payment_terms = payment_terms t, week = to_period_W (date t)\<rparr>)
                     historical_data
      in \<lparr>historical = hist,
          collection_patterns = calculate_collection_patterns hist,
          payment_patterns = calculate_payment_patterns\<rparr>)"

text \<open>\<^verbatim>\<open>self.historical['date'].min()\<close>: \<open>None\<close> is \<^verbatim>\<open>NaT\<close>, the minimum of no dates.\<close>

definition min_date :: "hist_row list \<Rightarrow> timestamp option" where
  "min_date hist = (if hist = [] then None else Some (Min (set (map date hist))))"

definition forecast_revenue :: "forecaster \<Rightarrow> timestamp \<Rightarrow> pyfloat" where
  "forecast_revenue self week_start =
     (let week_of_year = iso_week week_start;
          historical_revenue = mean (map amount (filter
             (\<lambda>r. category r = ''Revenue'' \<and> iso_week (date r) = week_of_year)
             (historical self)));
          historical_revenue =
            (if isna historical_revenue
             then fdiv (mean (map amount (filter (\<lambda>r. category r = ''Revenue'')
                                            (historical self)))) (Some 4)
             else historical_revenue);
          weeks_from_start =
            (case min_date (historical self) of
               None \<Rightarrow> None
             | Some d \<Rightarrow> fdiv (Some (real_of_int (td_days (week_start - d)))) (Some 7));
          growth_factor = fadd (Some 1) (fdiv (fmul (Some 0.05) weeks_from_start) (Some 52))
      in fmul historical_revenue growth_factor)"

text \<open>
  The loop of \<^verbatim>\<open>_forecast_ar_collections\<close> over the five (lag, rate) pairs, the running
  total \<open>collections\<close> passed along.
\<close>

fun ar_loop :: "forecaster \<Rightarrow> timestamp \<Rightarrow> nat \<Rightarrow> pyfloat \<Rightarrow> (nat \<times> real) list \<Rightarrow> pyfloat" where
  "ar_loop self week_start week_index collections [] = collections"
| "ar_loop self week_start week_index collections ((lag_weeks, rate) # rest) =
     (if week_index \<ge> lag_weeks
      then (let past_week = week_start - timedelta (int lag_weeks) 0;
                past_revenue = forecast_revenue self past_week
            in ar_loop self week_start week_index
                 (fadd collections (fmul past_revenue (Some rate))) rest)
      else ar_loop self week_start week_index collections rest)"

definition forecast_ar_collections :: "forecaster \<Rightarrow> timestamp \<Rightarrow> nat \<Rightarrow> pyfloat" where
  "forecast_ar_collections self week_start week_index =
     ar_loop self week_start week_index (Some 0)
       [(0, current (collection_patterns self)),
        (1, week_1 (collection_patterns self)),
        (2, week_2 (collection_patterns self)),
        (3, week_3 (collection_patterns self)),
        (4, week_4 (collection_patterns self))]"

definition forecast_payroll :: "forecaster \<Rightarrow> timestamp \<Rightarrow> pyfloat" where
  "forecast_payroll self week_start =
     (let week_number = iso_week week_start
      in if week_number mod 2 = 0
         then (let avg_payroll = mean (map amount (filter (\<lambda>r. category r = ''Payroll'')
                                                      (historical self)))
               in if \<not> isna avg_payroll then avg_payroll else Some 50000)
         else Some 0)"

definition opex_categories :: "string list" where
  "opex_categories = [''Marketing'', ''Software'', ''Rent'', ''Utilities'',
                      ''Professional Services'', ''Supplies'', ''Travel'']"

text \<open>\<^verbatim>\<open>groupby('week')['amount'].sum()\<close>: one total per week present, weeks in order.\<close>

definition groupby_week_sum :: "hist_row list \<Rightarrow> real list" where
  "groupby_week_sum rows =
     map (\<lambda>w. sum_list (map amount (filter (\<lambda>r. week r = w) rows)))
         (sort (remdups (map week rows)))"

definition forecast_opex :: "forecaster \<Rightarrow> timestamp \<Rightarrow> pyfloat" where
  "forecast_opex self week_start =
     (let weekly_opex = mean (groupby_week_sum
            (filter (\<lambda>r. category r \<in> set opex_categories) (historical self)))
      in if \<not> isna weekly_opex then weekly_opex else Some 15000)"

section \<open>The forecast\<close>

record adjustment =
  adj_revenue :: real
  adj_collections :: real
  adj_expenses :: real

definition scenario_adjustments :: "string \<Rightarrow> adjustment option" where
  "scenario_adjustments = map_of
     [(''best'', \<lparr>adj_revenue = 1.15, adj_collections = 1.10, adj_expenses = 0.95\<rparr>),
      (''base'', \<lparr>adj_revenue = 1.00, adj_collections = 1.00, adj_expenses = 1.00\<rparr>),
      (''worst'', \<lparr>adj_revenue = 0.85, adj_collections = 0.90, adj_expenses = 1.05\<rparr>)]"

record forecast_week =
  week_number :: nat
  week_start :: timestamp
  week_end :: timestamp
  opening_balance :: pyfloat
  revenue :: pyfloat
  ar_collections :: pyfloat
  total_inflows :: pyfloat
  cogs :: pyfloat
  payroll :: pyfloat
  operating_expenses :: pyfloat
  total_outflows :: pyfloat
  net_cash_flow :: pyfloat
  ending_balance :: pyfloat
  scenario :: string

datatype error = KeyError string | IndexError

text \<open>The body of the loop of \<^verbatim>\<open>generate_forecast\<close>: the row of week \<open>i\<close> (counted from 0).\<close>

definition forecast_row ::
  "forecaster \<Rightarrow> adjustment \<Rightarrow> string \<Rightarrow> nat \<Rightarrow> pyfloat \<Rightarrow> timestamp \<Rightarrow> forecast_week" where
  "forecast_row self adj scen i current_balance wk_start =
     (let wk_end = wk_start + timedelta 0 6;
          rev = fmul (forecast_revenue self wk_start) (Some (adj_revenue adj));
          ar = fmul (forecast_ar_collections self wk_start i) (Some (adj_collections adj));
          inflows = fadd rev ar;
          cg = fmul rev (Some 0.35);
          pay = fmul (forecast_payroll self wk_start) (Some (adj_expenses adj));
          opex = fmul (forecast_opex self wk_start) (Some (adj_expenses adj));
          outflows = fadd (fadd cg pay) opex;
          net = fsub inflows outflows;
          ending = fadd current_balance net
      in \<lparr>week_number = i + 1, week_start = wk_start, week_end = wk_end,
          opening_balance = current_balance, revenue = rev, ar_collections = ar,
          total_inflows = inflows, cogs = cg, payroll = pay, operating_expenses = opex,
          total_outflows = outflows, net_cash_flow = net, ending_balance = ending,
          scenario = scen\<rparr>)"

fun forecast_loop ::
  "forecaster \<Rightarrow> adjustment \<Rightarrow> string \<Rightarrow> nat \<Rightarrow> pyfloat \<Rightarrow> timestamp list \<Rightarrow> forecast_week list" where
  "forecast_loop self adj scen i current_balance [] = []"
| "forecast_loop self adj scen i current_balance (wk_start # weeks) =
     (let row = forecast_row self adj scen i current_balance wk_start
      in row # forecast_loop self adj scen (i + 1) (ending_balance row) weeks)"

definition generate_forecast ::
  "forecaster \<Rightarrow> timestamp \<Rightarrow> real \<Rightarrow> string \<Rightarrow> error + forecast_week list" where
  "generate_forecast self start_date opening scen =
     (let weeks = date_range_W_MON start_date 13
      in case scenario_adjustments scen of
           None \<Rightarrow> Inl (KeyError scen)
         | Some adj \<Rightarrow> Inr (forecast_loop self adj scen 0 (Some opening) weeks))"

section \<open>Sensitivity analysis\<close>

record sensitivity_row =
  variable :: string
  change :: string
  sens_ending_balance :: pyfloat
  variance_from_base :: pyfloat
  variance_pct :: pyfloat

fun digits :: "nat \<Rightarrow> string" where
  "digits n = (if n < 10 then [''0123456789'' ! n]
               else digits (n div 10) @ [''0123456789'' ! (n mod 10)])"

declare digits.simps [simp del]

definition format_pct :: "real \<Rightarrow> string" where
  \<comment> \<open>the format \<^verbatim>\<open>{x*100:+.0f}%\<close>: forced sign, no decimals\<close>
  "format_pct x = (let v = x * 100
                   in (if v < 0 then ''-'' else ''+'') @ digits (nat (round \<bar>v\<bar>)) @ ''%'')"

definition sensitivity_entry :: "string \<Rightarrow> real \<Rightarrow> pyfloat \<Rightarrow> real \<Rightarrow> sensitivity_row" where
  \<comment> \<open>the body of either loop of \<^verbatim>\<open>sensitivity_analysis\<close>, with its label and elasticity\<close>
  "sensitivity_entry label elasticity base_ending chg =
     (let adjusted_ending = fmul base_ending (Some (1 + chg * elasticity))
      in \<lparr>variable = label, change = format_pct chg,
          sens_ending_balance = adjusted_ending,
          variance_from_base = fsub adjusted_ending base_ending,
          variance_pct = fmul (fsub (fdiv adjusted_ending base_ending) (Some 1)) (Some 100)\<rparr>)"

text \<open>
  The first loop of the source forecasts the base case once more in every round and
  drops the result; the forecast has no effect and cannot fail where the first one did
  not, so the model leaves the call out.
\<close>

definition sensitivity_analysis ::
  "forecaster \<Rightarrow> timestamp \<Rightarrow> real \<Rightarrow> error + sensitivity_row list" where
  "sensitivity_analysis self start_date opening =
     (case generate_forecast self start_date opening ''base'' of
        Inl e \<Rightarrow> Inl e
      | Inr base_forecast \<Rightarrow>
          (if base_forecast = [] then Inl IndexError
           else (let base_ending = ending_balance (last base_forecast)
                 in Inr (map (sensitivity_entry ''Revenue'' 1.5 base_ending)
                            [-0.20, -0.10, 0, 0.10, 0.20]
                       @ map (sensitivity_entry ''Collection Rate'' 0.8 base_ending)
                            [-0.20, -0.10, 0, 0.10, 0.20]))))"

section \<open>The specification's formulas\<close>

text \<open>
  The projections as the specification words them, to be compared with the functions
  above.
\<close>

definition spec_base_revenue :: "hist_row list \<Rightarrow> timestamp \<Rightarrow> pyfloat" where
  "spec_base_revenue hist wk =
     (let matching = [amount r. r \<leftarrow> hist, category r = ''Revenue'' \<and> iso_week (date r) = iso_week wk];
          all_revenue = [amount r. r \<leftarrow> hist, category r = ''Revenue'']
      in if matching \<noteq> [] then Some (sum_list matching / real (length matching))
         else if all_revenue \<noteq> [] then Some (sum_list all_revenue / real (length all_revenue) / 4)
         else None)"

definition spec_growth_factor :: "hist_row list \<Rightarrow> timestamp \<Rightarrow> pyfloat" where
  "spec_growth_factor hist wk =
     (if hist = [] then None
      else Some (1 + 0.05 * ((real_of_int ((wk - Min (date ` set hist)) div ns_per_day) / 7) / 52)))"

definition spec_revenue :: "hist_row list \<Rightarrow> timestamp \<Rightarrow> real \<Rightarrow> pyfloat" where
  "spec_revenue hist wk multiplier =
     fmul (fmul (spec_base_revenue hist wk) (spec_growth_factor hist wk)) (Some multiplier)"

definition spec_collection_fractions :: "real list" where
  "spec_collection_fractions = [0.30, 0.40, 0.20, 0.08, 0.02]"

definition fsum :: "pyfloat list \<Rightarrow> pyfloat" where
  "fsum xs = foldr fadd xs (Some 0)"

definition spec_ar_collections :: "forecaster \<Rightarrow> timestamp \<Rightarrow> nat \<Rightarrow> real \<Rightarrow> pyfloat" where
  "spec_ar_collections self wk i multiplier =
     fmul (fsum [fmul (forecast_revenue self (wk - int lag * 7 * ns_per_day))
                      (Some (spec_collection_fractions ! lag)).
                 lag \<leftarrow> [0..<5], lag \<le> i])
          (Some multiplier)"

definition spec_payroll :: "hist_row list \<Rightarrow> timestamp \<Rightarrow> real \<Rightarrow> pyfloat" where
  "spec_payroll hist wk multiplier =
     (let payroll_amounts = [amount r. r \<leftarrow> hist, category r = ''Payroll'']
      in if even (iso_week wk)
         then (if payroll_amounts = [] then Some (50000 * multiplier)
               else Some (sum_list payroll_amounts / real (length payroll_amounts) * multiplier))
         else Some 0)"

text \<open>
  A forecast that applies a scenario: 13 rows that carry the label, their revenue,
  collections, payroll and operating expenses the estimates of their week times the
  revenue, collections and expense multiplier.
\<close>

definition rows_scaled ::
  "forecaster \<Rightarrow> forecast_week list \<Rightarrow> string \<Rightarrow> real \<Rightarrow> real \<Rightarrow> real \<Rightarrow> bool" where
  "rows_scaled self rows label revenue_mult collections_mult expenses_mult =
     (length rows = 13
      \<and> (\<forall>i<13. scenario (rows ! i) = label
            \<and> revenue (rows ! i) =
                fmul (forecast_revenue self (week_start (rows ! i))) (Some revenue_mult)
            \<and> ar_collections (rows ! i) =
                fmul (forecast_ar_collections self (week_start (rows ! i)) i) (Some collections_mult)
            \<and> payroll (rows ! i) =
                fmul (forecast_payroll self (week_start (rows ! i))) (Some expenses_mult)
            \<and> operating_expenses (rows ! i) =
                fmul (forecast_opex self (week_start (rows ! i))) (Some expenses_mult)))"

text \<open>Comparisons of amounts: false as soon as a side is not a number.\<close>

definition is_pos :: "pyfloat \<Rightarrow> bool" where
  "is_pos a = (case a of None \<Rightarrow> False | Some x \<Rightarrow> 0 < x)"

definition is_nonneg :: "pyfloat \<Rightarrow> bool" where
  "is_nonneg a = (case a of None \<Rightarrow> False | Some x \<Rightarrow> 0 \<le> x)"

definition fge :: "pyfloat \<Rightarrow> pyfloat \<Rightarrow> bool" where
  "fge a b = (case a of None \<Rightarrow> False | Some x \<Rightarrow> (case b of None \<Rightarrow> False | Some y \<Rightarrow> y \<le> x))"

text \<open>
  The comparison \<^verbatim>\<open>==\<close> of two amounts: a value that is not a number equals nothing,
  itself included.
\<close>

definition feq :: "pyfloat \<Rightarrow> pyfloat \<Rightarrow> bool" where
  "feq a b = (case a of None \<Rightarrow> False | Some x \<Rightarrow> (case b of None \<Rightarrow> False | Some y \<Rightarrow> x = y))"

text \<open>
  The ending balance of the last row, as \<^verbatim>\<open>sensitivity_analysis\<close> and the scenario
  comparison read it (\<^verbatim>\<open>iloc[-1]['ending_balance']\<close>).
\<close>

definition week13_ending :: "forecaster \<Rightarrow> timestamp \<Rightarrow> real \<Rightarrow> string \<Rightarrow> pyfloat" where
  "week13_ending self start_date opening scen =
     (case generate_forecast self start_date opening scen of
        Inl e \<Rightarrow> None
      | Inr rows \<Rightarrow> ending_balance (last rows))"

text \<open>
  Conditions on the estimates before any scenario multiplier, over the 13 weeks of a
  forecast: revenue and collections strictly positive; payroll and operating expenses the
  same in every week; payroll and operating expenses not negative.
\<close>

definition estimates_positive :: "forecaster \<Rightarrow> timestamp \<Rightarrow> bool" where
  "estimates_positive self start_date =
     list_all (\<lambda>(i, wk). is_pos (forecast_revenue self wk)
                       \<and> is_pos (forecast_ar_collections self wk i))
              (enumerate 0 (date_range_W_MON start_date 13))"

definition expenses_flat :: "forecaster \<Rightarrow> timestamp \<Rightarrow> bool" where
  "expenses_flat self start_date =
     (let weeks = date_range_W_MON start_date 13
      in list_all (\<lambda>wk. forecast_payroll self wk = forecast_payroll self (hd weeks)
                       \<and> forecast_opex self wk = forecast_opex self (hd weeks)) weeks)"

definition expenses_nonneg :: "forecaster \<Rightarrow> timestamp \<Rightarrow> bool" where
  "expenses_nonneg self start_date =
     list_all (\<lambda>wk. is_nonneg (forecast_payroll self wk) \<and> is_nonneg (forecast_opex self wk))
              (date_range_W_MON start_date 13)"

section \<open>Sample inputs\<close>

text \<open>
  Monday 2024-01-01 is the timestamp 1704067200000000000; the sample forecasts start on
  Monday 2024-03-04.
\<close>

definition sample_start :: timestamp where
  "sample_start = 1709510400000000000"

definition sample_history :: "transaction list" where
  "sample_history =
     [\<lparr>date = 1704067200000000000, category = ''Revenue'', amount = 100000, payment_terms = ''Net 30''\<rparr>,
      \<lparr>date = 1704672000000000000, category = ''Revenue'', amount = 120000, payment_terms = ''Net 30''\<rparr>,
      \<lparr>date = 1704067200000000000, category = ''Payroll'', amount = 55000, payment_terms = ''Immediate''\<rparr>,
      \<lparr>date = 1704153600000000000, category = ''Rent'', amount = 12000, payment_terms = ''Net 30''\<rparr>]"

text \<open>A history with payroll only: no revenue was ever recorded.\<close>

definition no_revenue_history :: "transaction list" where
  "no_revenue_history =
     [\<lparr>date = 1704067200000000000, category = ''Payroll'', amount = 55000, payment_terms = ''Immediate''\<rparr>]"

text \<open>
  A history that books its outflows as negative amounts: revenue 1, payroll 0, rent
  \<open>-1000\<close>, all in the week of 2024-01-01.
\<close>

definition negative_opex_history :: "transaction list" where
  "negative_opex_history =
     [\<lparr>date = 1704067200000000000, category = ''Revenue'', amount = 1, payment_terms = ''Net 30''\<rparr>,
      \<lparr>date = 1704067200000000000, category = ''Payroll'', amount = 0, payment_terms = ''Immediate''\<rparr>,
      \<lparr>date = 1704067200000000000, category = ''Rent'', amount = - 1000, payment_terms = ''Net 30''\<rparr>]"

section \<open>The arithmetic of amounts\<close>

lemma fadd_simps [simp]:
  "fadd (Some x) (Some y) = Some (x + y)" "fadd None b = None" "fadd a None = None"
  by (simp_all add: fadd_def split: option.splits)

lemma fsub_simps [simp]:
  "fsub (Some x) (Some y) = Some (x - y)" "fsub None b = None" "fsub a None = None"
  by (simp_all add: fsub_def split: option.splits)

lemma fmul_simps [simp]:
  "fmul (Some x) (Some y) = Some (x * y)" "fmul None b = None" "fmul a None = None"
  by (simp_all add: fmul_def split: option.splits)

lemma fdiv_simps [simp]:
  "y \<noteq> 0 \<Longrightarrow> fdiv (Some x) (Some y) = Some (x / y)" "fdiv (Some x) (Some 0) = None"
  "fdiv None b = None" "fdiv a None = None"
  by (simp_all add: fdiv_def split: option.splits)

lemma fadd_zero_left [simp]: "fadd (Some 0) a = a"
  by (cases a) simp_all

lemma fadd_zero_right [simp]: "fadd a (Some 0) = a"
  by (cases a) simp_all

lemma comprehension_map_filter:
  "concat (map (\<lambda>x. if P x then [f x] else []) xs) = map f (filter P xs)"
  by (induction xs) simp_all

lemma fadd_commute: "fadd a b = fadd b a"
  by (cases a; cases b) simp_all

lemma fadd_assoc: "fadd (fadd a b) c = fadd a (fadd b c)"
  by (cases a; cases b; cases c) simp_all

section \<open>The forecast loop\<close>

lemma length_date_range_W_MON [simp]: "length (date_range_W_MON start n) = n"
  by (simp add: date_range_W_MON_def)

lemma nth_date_range_W_MON:
  "k < n \<Longrightarrow> date_range_W_MON start n ! k = rollforward_MON start + int k * 7 * ns_per_day"
  by (simp add: date_range_W_MON_def timedelta_def)

lemma length_forecast_loop [simp]:
  "length (forecast_loop self adj scen i cb weeks) = length weeks"
  by (induction weeks arbitrary: i cb) (simp_all add: Let_def)

lemma forecast_loop_in_set:
  "r \<in> set (forecast_loop self adj scen i cb weeks) \<Longrightarrow>
   \<exists>k cb'. k < length weeks \<and> r = forecast_row self adj scen (i + k) cb' (weeks ! k)"
proof (induction weeks arbitrary: i cb)
  case Nil
  then show ?case by simp
next
  case (Cons w weeks)
  from Cons.prems have "r = forecast_row self adj scen i cb w
      \<or> r \<in> set (forecast_loop self adj scen (i + 1)
                   (ending_balance (forecast_row self adj scen i cb w)) weeks)"
    by (simp add: Let_def)
  then show ?case
  proof
    assume "r = forecast_row self adj scen i cb w"
    then have "0 < length (w # weeks) \<and> r = forecast_row self adj scen (i + 0) cb ((w # weeks) ! 0)"
      by simp
    then show ?thesis by blast
  next
    assume "r \<in> set (forecast_loop self adj scen (i + 1)
                   (ending_balance (forecast_row self adj scen i cb w)) weeks)"
    from Cons.IH [OF this] obtain k cb' where
      k: "k < length weeks" "r = forecast_row self adj scen (i + 1 + k) cb' (weeks ! k)"
      by blast
    then have "Suc k < length (w # weeks)
        \<and> r = forecast_row self adj scen (i + Suc k) cb' ((w # weeks) ! Suc k)"
      by simp
    then show ?thesis by blast
  qed
qed

text \<open>
  Row \<open>k\<close> of the loop is the row of week \<open>i + k\<close>, opened with the balance that the row
  before it closed with (the starting balance for the first row).
\<close>

lemma forecast_loop_nth:
  "k < length weeks \<Longrightarrow>
   forecast_loop self adj scen i cb weeks ! k =
     forecast_row self adj scen (i + k)
       (if k = 0 then cb else ending_balance (forecast_loop self adj scen i cb weeks ! (k - 1)))
       (weeks ! k)"
proof (induction weeks arbitrary: i cb k)
  case Nil
  then show ?case by simp
next
  case (Cons w weeks)
  show ?case
  proof (cases k)
    case 0
    then show ?thesis by (simp add: Let_def)
  next
    case (Suc j)
    with Cons.prems have j: "j < length weeks" by simp
    show ?thesis
    proof (cases j)
      case 0
      with Suc j Cons.IH [OF j, of "i + 1" "ending_balance (forecast_row self adj scen i cb w)"]
      show ?thesis by (simp add: Let_def)
    next
      case (Suc j')
      with \<open>k = Suc j\<close> j Cons.IH [OF j, of "i + 1" "ending_balance (forecast_row self adj scen i cb w)"]
      show ?thesis by (simp add: Let_def)
    qed
  qed
qed

lemma generate_forecast_Inr:
  "generate_forecast self start_date opening scen = Inr rows \<Longrightarrow>
   \<exists>adj. scenario_adjustments scen = Some adj
     \<and> rows = forecast_loop self adj scen 0 (Some opening) (date_range_W_MON start_date 13)"
  by (auto simp: generate_forecast_def Let_def split: option.splits)

lemma generate_forecast_Some:
  "scenario_adjustments scen = Some adj \<Longrightarrow>
   generate_forecast self start_date opening scen =
     Inr (forecast_loop self adj scen 0 (Some opening) (date_range_W_MON start_date 13))"
  by (simp add: generate_forecast_def Let_def)

lemma scenario_adjustments_base:
  "scenario_adjustments ''base'' =
     Some \<lparr>adj_revenue = 1.00, adj_collections = 1.00, adj_expenses = 1.00\<rparr>"
  by (simp add: scenario_adjustments_def)

lemma forecast_row_fields [simp]:
  "week_number (forecast_row self adj scen i cb w) = i + 1"
  "week_start (forecast_row self adj scen i cb w) = w"
  "week_end (forecast_row self adj scen i cb w) = w + 6 * ns_per_day"
  "opening_balance (forecast_row self adj scen i cb w) = cb"
  "revenue (forecast_row self adj scen i cb w) =
     fmul (forecast_revenue self w) (Some (adj_revenue adj))"
  "ar_collections (forecast_row self adj scen i cb w) =
     fmul (forecast_ar_collections self w i) (Some (adj_collections adj))"
  "payroll (forecast_row self adj scen i cb w) =
     fmul (forecast_payroll self w) (Some (adj_expenses adj))"
  "operating_expenses (forecast_row self adj scen i cb w) =
     fmul (forecast_opex self w) (Some (adj_expenses adj))"
  "scenario (forecast_row self adj scen i cb w) = scen"
  by (simp_all add: forecast_row_def Let_def timedelta_def)

lemma forecast_row_identities:
  "total_inflows (forecast_row self adj scen i cb w) =
     fadd (revenue (forecast_row self adj scen i cb w))
          (ar_collections (forecast_row self adj scen i cb w))"
  "cogs (forecast_row self adj scen i cb w) =
     fmul (revenue (forecast_row self adj scen i cb w)) (Some 0.35)"
  "total_outflows (forecast_row self adj scen i cb w) =
     fadd (fadd (cogs (forecast_row self adj scen i cb w))
                (payroll (forecast_row self adj scen i cb w)))
          (operating_expenses (forecast_row self adj scen i cb w))"
  "net_cash_flow (forecast_row self adj scen i cb w) =
     fsub (total_inflows (forecast_row self adj scen i cb w))
          (total_outflows (forecast_row self adj scen i cb w))"
  "ending_balance (forecast_row self adj scen i cb w) =
     fadd (opening_balance (forecast_row self adj scen i cb w))
          (net_cash_flow (forecast_row self adj scen i cb w))"
  by (simp_all add: forecast_row_def Let_def)

section \<open>Row arithmetic and balance continuity\<close>

text \<open>
  How the rows are put together, as values of the model: an accepted scenario gives 13
  rows; in each row the total inflows are revenue plus collections, the total outflows
  are cost of goods plus payroll plus operating expenses, the net cash flow is inflows
  minus outflows and the ending balance is the opening balance plus the net cash flow;
  every row after the first opens with the balance the row before it closed with, and
  the first row opens with the caller's opening balance. An amount that is not a number
  is the value \<open>None\<close> on both sides here; what the comparison \<^verbatim>\<open>==\<close> makes of the rows
  is the subject of the section on row identities below.
\<close>

lemma forecast_rows_structure:
  assumes "generate_forecast self start_date opening scen = Inr rows"
  shows "length rows = 13
    \<and> (\<forall>r \<in> set rows.
          total_inflows r = fadd (revenue r) (ar_collections r)
        \<and> total_outflows r = fadd (fadd (cogs r) (payroll r)) (operating_expenses r)
        \<and> net_cash_flow r = fsub (total_inflows r) (total_outflows r)
        \<and> ending_balance r = fadd (opening_balance r) (net_cash_flow r))
    \<and> (\<forall>i. 0 < i \<and> i < 13 \<longrightarrow> opening_balance (rows ! i) = ending_balance (rows ! (i - 1)))
    \<and> opening_balance (rows ! 0) = Some opening"
proof -
  from generate_forecast_Inr [OF assms] obtain adj where
    rows: "rows = forecast_loop self adj scen 0 (Some opening) (date_range_W_MON start_date 13)"
    by blast
  have len: "length rows = 13"
    by (simp add: rows)
  have ident: "\<forall>r \<in> set rows.
          total_inflows r = fadd (revenue r) (ar_collections r)
        \<and> total_outflows r = fadd (fadd (cogs r) (payroll r)) (operating_expenses r)
        \<and> net_cash_flow r = fsub (total_inflows r) (total_outflows r)
        \<and> ending_balance r = fadd (opening_balance r) (net_cash_flow r)"
  proof
    fix r assume "r \<in> set rows"
    then obtain k cb' where
      "r = forecast_row self adj scen (0 + k) cb' (date_range_W_MON start_date 13 ! k)"
      unfolding rows using forecast_loop_in_set by blast
    then show "total_inflows r = fadd (revenue r) (ar_collections r)
        \<and> total_outflows r = fadd (fadd (cogs r) (payroll r)) (operating_expenses r)
        \<and> net_cash_flow r = fsub (total_inflows r) (total_outflows r)
        \<and> ending_balance r = fadd (opening_balance r) (net_cash_flow r)"
      using forecast_row_identities by metis
  qed
  have cont: "\<forall>i. 0 < i \<and> i < 13 \<longrightarrow> opening_balance (rows ! i) = ending_balance (rows ! (i - 1))"
  proof (intro allI impI)
    fix i :: nat assume i: "0 < i \<and> i < 13"
    then have "i < length (date_range_W_MON start_date 13)" by simp
    from forecast_loop_nth [OF this, of self adj scen 0 "Some opening"] i
    show "opening_balance (rows ! i) = ending_balance (rows ! (i - 1))"
      by (simp add: rows)
  qed
  have "0 < length (date_range_W_MON start_date 13)" by simp
  from forecast_loop_nth [OF this, of self adj scen 0 "Some opening"]
  have first: "opening_balance (rows ! 0) = Some opening"
    by (simp add: rows)
  from len ident cont first show ?thesis by blast
qed

section \<open>Calendar facts\<close>

lemma toordinal_add_days: "toordinal (ts + k * ns_per_day) = toordinal ts + k"
  by (simp add: toordinal_def ns_per_day_def)

lemma mod7_roll: "((a::int) + (0 - a mod 7) mod 7) mod 7 = 0"
proof -
  have "(a + (0 - a mod 7) mod 7) mod 7 = (a + (0 - a mod 7)) mod 7"
    by (simp only: mod_add_right_eq)
  also have "\<dots> = (a - a mod 7) mod 7"
    by simp
  also have "\<dots> = 0"
    by (simp add: minus_mod_eq_mult_div)
  finally show ?thesis .
qed

lemma weekday_rollforward_MON: "weekday (rollforward_MON start) = 0"
proof -
  have "weekday (rollforward_MON start)
      = ((toordinal start + 6) + (0 - (toordinal start + 6) mod 7) mod 7) mod 7"
    unfolding rollforward_MON_def weekday_def toordinal_add_days
    by (simp only: add.commute add.left_commute add.assoc)
  then show ?thesis
    by (simp only: mod7_roll)
qed

lemma weekday_add_weeks: "weekday (ts + k * 7 * ns_per_day) = weekday ts"
proof -
  have "toordinal (ts + (k * 7) * ns_per_day) = toordinal ts + k * 7"
    by (rule toordinal_add_days)
  moreover have "(toordinal ts + k * 7 + 6) mod 7 = (toordinal ts + 6 + k * 7) mod 7"
    by (simp only: add.commute add.left_commute add.assoc)
  ultimately show ?thesis
    unfolding weekday_def by (simp only: mod_mult_self1 mod_mult_self2 mod_mult_self3)
qed

lemma rollforward_MON_bounds:
  "\<exists>d. 0 \<le> d \<and> d < 7 \<and> rollforward_MON start = start + d * ns_per_day"
proof -
  have "0 \<le> (0 - weekday start) mod 7 \<and> (0 - weekday start) mod 7 < 7"
    by simp
  then show ?thesis
    unfolding rollforward_MON_def by blast
qed

lemma rollforward_MON_on_monday: "weekday start = 0 \<Longrightarrow> rollforward_MON start = start"
  by (simp add: rollforward_MON_def)

section \<open>The weeks of the forecast\<close>

text \<open>
  Claim C4. An accepted call returns exactly 13 rows, numbered 1 to 13 in order; every
  week starts on a Monday, each week starts 7 days after the one before, and ends 6 days
  after it starts; the first week starts on the first Monday on or after the start date
  (on the start date itself when that is a Monday), at the start date's time of day.
\<close>

theorem generate_forecast_weeks:
  assumes "generate_forecast self start_date opening scen = Inr rows"
  shows "length rows = 13
    \<and> map week_number rows = [1..<14]
    \<and> (\<forall>i<13. weekday (week_start (rows ! i)) = 0
             \<and> week_end (rows ! i) = week_start (rows ! i) + 6 * ns_per_day)
    \<and> (\<forall>i. i + 1 < 13 \<longrightarrow> week_start (rows ! (i + 1)) = week_start (rows ! i) + 7 * ns_per_day)
    \<and> (\<exists>d. 0 \<le> d \<and> d < 7 \<and> week_start (rows ! 0) = start_date + d * ns_per_day)
    \<and> (weekday start_date = 0 \<longrightarrow> week_start (rows ! 0) = start_date)"
proof -
  from generate_forecast_Inr [OF assms] obtain adj where
    rows: "rows = forecast_loop self adj scen 0 (Some opening) (date_range_W_MON start_date 13)"
    by blast
  have len: "length rows = 13"
    by (simp add: rows)
  have nth: "week_number (rows ! i) = i + 1
      \<and> week_start (rows ! i) = rollforward_MON start_date + int i * 7 * ns_per_day
      \<and> week_end (rows ! i) = week_start (rows ! i) + 6 * ns_per_day" if "i < 13" for i
  proof -
    from that have "i < length (date_range_W_MON start_date 13)" by simp
    from forecast_loop_nth [OF this, of self adj scen 0 "Some opening"] that
    show ?thesis
      by (simp add: rows nth_date_range_W_MON)
  qed
  have numbers: "map week_number rows = [1..<14]"
  proof (rule nth_equalityI)
    show "length (map week_number rows) = length [1..<14]"
      by (simp add: len)
  next
    fix i assume "i < length (map week_number rows)"
    then have i: "i < 13" by (simp add: len)
    then have "[1..<14] ! i = 1 + i"
      by (intro nth_upt) simp
    with i nth [OF i] show "map week_number rows ! i = [1..<14] ! i"
      by (simp add: len)
  qed
  have mondays: "\<forall>i<13. weekday (week_start (rows ! i)) = 0
             \<and> week_end (rows ! i) = week_start (rows ! i) + 6 * ns_per_day"
    using nth by (simp add: weekday_add_weeks weekday_rollforward_MON)
  have steps: "\<forall>i. i + 1 < 13 \<longrightarrow> week_start (rows ! (i + 1)) = week_start (rows ! i) + 7 * ns_per_day"
  proof (intro allI impI)
    fix i :: nat assume i: "i + 1 < 13"
    then have "i < 13" by simp
    from nth [OF i] nth [OF this]
    show "week_start (rows ! (i + 1)) = week_start (rows ! i) + 7 * ns_per_day"
      by (simp add: algebra_simps)
  qed
  have "week_start (rows ! 0) = rollforward_MON start_date"
    using nth [of 0] by simp
  with rollforward_MON_bounds [of start_date] rollforward_MON_on_monday [of start_date]
  have first: "(\<exists>d. 0 \<le> d \<and> d < 7 \<and> week_start (rows ! 0) = start_date + d * ns_per_day)
    \<and> (weekday start_date = 0 \<longrightarrow> week_start (rows ! 0) = start_date)"
    by simp
  from len numbers mondays steps first show ?thesis by blast
qed

theorem generate_forecast_weeks_witness:
  "\<exists>rows. generate_forecast (init []) 1709510400000000000 500000 ''base'' = Inr rows
     \<and> length rows = 13
     \<and> map week_number rows = [1..<14]
     \<and> (\<forall>i<13. weekday (week_start (rows ! i)) = 0
             \<and> week_end (rows ! i) = week_start (rows ! i) + 6 * ns_per_day)
     \<and> (\<forall>i. i + 1 < 13 \<longrightarrow> week_start (rows ! (i + 1)) = week_start (rows ! i) + 7 * ns_per_day)
     \<and> (\<exists>d. 0 \<le> d \<and> d < 7 \<and> week_start (rows ! 0) = 1709510400000000000 + d * ns_per_day)
     \<and> (weekday 1709510400000000000 = 0 \<longrightarrow> week_start (rows ! 0) = 1709510400000000000)"
  using generate_forecast_weeks
          [OF generate_forecast_Some [OF scenario_adjustments_base,
                of "init []" 1709510400000000000 500000]]
  by (simp add: generate_forecast_Some [OF scenario_adjustments_base])

section \<open>Revenue\<close>

lemma scenario_adjustments_best:
  "scenario_adjustments ''best'' =
     Some \<lparr>adj_revenue = 1.15, adj_collections = 1.10, adj_expenses = 0.95\<rparr>"
  by (simp add: scenario_adjustments_def)

lemma scenario_adjustments_worst:
  "scenario_adjustments ''worst'' =
     Some \<lparr>adj_revenue = 0.85, adj_collections = 0.90, adj_expenses = 1.05\<rparr>"
  by (simp add: scenario_adjustments_def)

text \<open>
  The revenue estimate before the scenario multiplier is the base figure of the
  specification times its growth factor.
\<close>

lemma forecast_revenue_spec:
  "forecast_revenue self wk =
     fmul (spec_base_revenue (historical self) wk) (spec_growth_factor (historical self) wk)"
proof -
  have base: "(let historical_revenue = mean (map amount (filter
             (\<lambda>r. category r = ''Revenue'' \<and> iso_week (date r) = iso_week wk)
             (historical self)))
        in if isna historical_revenue
           then fdiv (mean (map amount (filter (\<lambda>r. category r = ''Revenue'')
                                          (historical self)))) (Some 4)
           else historical_revenue) = spec_base_revenue (historical self) wk"
    by (simp add: spec_base_revenue_def mean_def isna_def Let_def comprehension_map_filter)
  have growth: "fadd (Some 1) (fdiv (fmul (Some 0.05)
            (case min_date (historical self) of
               None \<Rightarrow> None
             | Some d \<Rightarrow> fdiv (Some (real_of_int (td_days (wk - d)))) (Some 7))) (Some 52))
        = spec_growth_factor (historical self) wk"
    by (simp add: spec_growth_factor_def min_date_def td_days_def)
  show ?thesis
    unfolding forecast_revenue_def using base growth by (simp add: Let_def)
qed

text \<open>
  Claim C2. In every row the revenue is the mean of the historical Revenue amounts whose
  ISO week is that of the week start (the mean of all Revenue amounts divided by 4 when
  there is none), times the growth factor 1 + 0.05 * (whole days since the earliest
  historical date / 7 / 52), times the revenue multiplier of the scenario.
\<close>

theorem revenue_formula:
  assumes "generate_forecast self start_date opening scen = Inr rows"
    and "scenario_adjustments scen = Some adj"
    and "r \<in> set rows"
  shows "revenue r = spec_revenue (historical self) (week_start r) (adj_revenue adj)"
proof -
  from assms(1,2) have
    "rows = forecast_loop self adj scen 0 (Some opening) (date_range_W_MON start_date 13)"
    by (simp add: generate_forecast_Some)
  with assms(3) obtain k cb' where
    "r = forecast_row self adj scen (0 + k) cb' (date_range_W_MON start_date 13 ! k)"
    using forecast_loop_in_set by blast
  then show ?thesis
    by (simp add: spec_revenue_def forecast_revenue_spec)
qed

theorem revenue_formula_witness:
  "\<exists>rows adj. generate_forecast (init sample_history) sample_start 500000 ''best'' = Inr rows
     \<and> scenario_adjustments ''best'' = Some adj
     \<and> rows ! 3 \<in> set rows
     \<and> revenue (rows ! 3) =
           spec_revenue (historical (init sample_history)) (week_start (rows ! 3)) (adj_revenue adj)"
proof -
  let ?rows = "forecast_loop (init sample_history)
      \<lparr>adj_revenue = 1.15, adj_collections = 1.10, adj_expenses = 0.95\<rparr> ''best'' 0 (Some 500000)
      (date_range_W_MON sample_start 13)"
  have g: "generate_forecast (init sample_history) sample_start 500000 ''best'' = Inr ?rows"
    by (rule generate_forecast_Some [OF scenario_adjustments_best])
  have m: "?rows ! 3 \<in> set ?rows"
    by (rule nth_mem) simp
  from revenue_formula [OF g scenario_adjustments_best m] g m scenario_adjustments_best
  show ?thesis by blast
qed

section \<open>Collections\<close>

lemma collection_patterns_init:
  "collection_patterns (init historical_data) =
     \<lparr>current = 0.30, week_1 = 0.40, week_2 = 0.20, week_3 = 0.08, week_4 = 0.02\<rparr>"
  by (simp add: init_def calculate_collection_patterns_def Let_def)

lemma lags_upto:
  "filter (\<lambda>lag. lag \<le> i) [0..<5] =
     (if i = 0 then [0] else if i = 1 then [0, 1] else if i = 2 then [0, 1, 2]
      else if i = 3 then [0, 1, 2, 3] else [0, 1, 2, 3, 4])"
proof -
  have "[0..<5] = [0, 1, 2, 3, 4::nat]"
    by (simp add: upt_rec)
  then show ?thesis by simp
qed

lemma forecast_ar_collections_sum:
  "forecast_ar_collections (init historical_data) wk i =
     fsum (map (\<lambda>lag. fmul (forecast_revenue (init historical_data) (wk - int lag * 7 * ns_per_day))
                          (Some (spec_collection_fractions ! lag)))
               (filter (\<lambda>lag. lag \<le> i) [0..<5]))"
proof -
  consider "i = 0" | "i = 1" | "i = 2" | "i = 3" | "4 \<le> i"
    by linarith
  then show ?thesis
  proof cases
    case 1
    then show ?thesis
      unfolding forecast_ar_collections_def fsum_def collection_patterns_init lags_upto
      by (simp add: spec_collection_fractions_def timedelta_def Let_def)
  next
    case 2
    then show ?thesis
      unfolding forecast_ar_collections_def fsum_def collection_patterns_init lags_upto
      by (simp add: spec_collection_fractions_def timedelta_def Let_def)
  next
    case 3
    then show ?thesis
      unfolding forecast_ar_collections_def fsum_def collection_patterns_init lags_upto
      by (simp add: spec_collection_fractions_def timedelta_def Let_def fadd_assoc)
  next
    case 4
    then show ?thesis
      unfolding forecast_ar_collections_def fsum_def collection_patterns_init lags_upto
      by (simp add: spec_collection_fractions_def timedelta_def Let_def fadd_assoc)
  next
    case 5
    then have "i \<noteq> 0" "i \<noteq> 1" "i \<noteq> 2" "i \<noteq> 3" "Suc 0 \<le> i" "2 \<le> i" "3 \<le> i"
      by simp_all
    with 5 show ?thesis
      unfolding forecast_ar_collections_def fsum_def collection_patterns_init lags_upto
      by (simp add: spec_collection_fractions_def timedelta_def Let_def fadd_assoc)
  qed
qed

lemma forecast_ar_collections_spec:
  "fmul (forecast_ar_collections (init historical_data) wk i) (Some m) =
     spec_ar_collections (init historical_data) wk i m"
  by (simp only: spec_ar_collections_def comprehension_map_filter forecast_ar_collections_sum)

text \<open>
  Claim C3. In the row of week \<open>i\<close> (counted from 0) the collections are the collections
  multiplier of the scenario times the sum, over the lags 0 to 4 that do not exceed \<open>i\<close>,
  of the revenue estimate (before the scenario multiplier) of the week that many weeks
  earlier times the fraction 0.30, 0.40, 0.20, 0.08, 0.02 of that lag; the first row has
  the lag-0 term only.
\<close>

theorem ar_collections_formula:
  assumes "generate_forecast (init historical_data) start_date opening scen = Inr rows"
    and "scenario_adjustments scen = Some adj"
    and "i < 13"
  shows "ar_collections (rows ! i) =
           spec_ar_collections (init historical_data) (week_start (rows ! i)) i (adj_collections adj)
    \<and> ar_collections (rows ! 0) =
           fmul (fmul (forecast_revenue (init historical_data) (week_start (rows ! 0))) (Some 0.30))
                (Some (adj_collections adj))"
proof -
  from assms(1,2) have rows:
    "rows = forecast_loop (init historical_data) adj scen 0 (Some opening)
              (date_range_W_MON start_date 13)"
    by (simp add: generate_forecast_Some)
  have nth: "ar_collections (rows ! k) =
      fmul (forecast_ar_collections (init historical_data) (week_start (rows ! k)) k)
           (Some (adj_collections adj))" if "k < 13" for k
  proof -
    from that have "k < length (date_range_W_MON start_date 13)" by simp
    from forecast_loop_nth [OF this, of "init historical_data" adj scen 0 "Some opening"]
    show ?thesis
      by (simp add: rows)
  qed
  have "forecast_ar_collections (init historical_data) wk 0 =
      fmul (forecast_revenue (init historical_data) wk) (Some 0.30)" for wk
    unfolding forecast_ar_collections_def collection_patterns_init
    by (simp add: timedelta_def Let_def)
  with nth [of 0] nth [OF assms(3)] show ?thesis
    by (simp add: forecast_ar_collections_spec)
qed

theorem ar_collections_formula_witness:
  "\<exists>rows adj. generate_forecast (init sample_history) sample_start 500000 ''best'' = Inr rows
     \<and> scenario_adjustments ''best'' = Some adj
     \<and> (3::nat) < 13
     \<and> ar_collections (rows ! 3) =
           spec_ar_collections (init sample_history) (week_start (rows ! 3)) 3 (adj_collections adj)
     \<and> ar_collections (rows ! 0) =
           fmul (fmul (forecast_revenue (init sample_history) (week_start (rows ! 0))) (Some 0.30))
                (Some (adj_collections adj))"
proof -
  let ?rows = "forecast_loop (init sample_history)
      \<lparr>adj_revenue = 1.15, adj_collections = 1.10, adj_expenses = 0.95\<rparr> ''best'' 0 (Some 500000)
      (date_range_W_MON sample_start 13)"
  have g: "generate_forecast (init sample_history) sample_start 500000 ''best'' = Inr ?rows"
    by (rule generate_forecast_Some [OF scenario_adjustments_best])
  have i: "(3::nat) < 13"
    by simp
  from ar_collections_formula [OF g scenario_adjustments_best i] g i scenario_adjustments_best
  show ?thesis by blast
qed

section \<open>Cost of goods and payroll\<close>

text \<open>
  Claim C6. In every row of every scenario the cost of goods is 0.35 times the revenue of
  that row, the revenue multiplier of the scenario already applied; the expense multiplier
  does not enter it.
\<close>

theorem cogs_formula:
  assumes "generate_forecast self start_date opening scen = Inr rows"
    and "scenario_adjustments scen = Some adj"
    and "r \<in> set rows"
  shows "cogs r = fmul (revenue r) (Some 0.35)
    \<and> cogs r = fmul (fmul (forecast_revenue self (week_start r)) (Some (adj_revenue adj)))
                     (Some 0.35)"
proof -
  from assms(1,2) have
    "rows = forecast_loop self adj scen 0 (Some opening) (date_range_W_MON start_date 13)"
    by (simp add: generate_forecast_Some)
  with assms(3) obtain k cb' where
    "r = forecast_row self adj scen (0 + k) cb' (date_range_W_MON start_date 13 ! k)"
    using forecast_loop_in_set by blast
  then show ?thesis
    by (simp add: forecast_row_identities)
qed

theorem cogs_formula_witness:
  "\<exists>rows adj. generate_forecast (init sample_history) sample_start 500000 ''best'' = Inr rows
     \<and> scenario_adjustments ''best'' = Some adj
     \<and> rows ! 3 \<in> set rows
     \<and> cogs (rows ! 3) = fmul (revenue (rows ! 3)) (Some 0.35)
     \<and> cogs (rows ! 3) =
           fmul (fmul (forecast_revenue (init sample_history) (week_start (rows ! 3)))
                      (Some (adj_revenue adj))) (Some 0.35)"
proof -
  let ?rows = "forecast_loop (init sample_history)
      \<lparr>adj_revenue = 1.15, adj_collections = 1.10, adj_expenses = 0.95\<rparr> ''best'' 0 (Some 500000)
      (date_range_W_MON sample_start 13)"
  have g: "generate_forecast (init sample_history) sample_start 500000 ''best'' = Inr ?rows"
    by (rule generate_forecast_Some [OF scenario_adjustments_best])
  have m: "?rows ! 3 \<in> set ?rows"
    by (rule nth_mem) simp
  from cogs_formula [OF g scenario_adjustments_best m] g m scenario_adjustments_best
  show ?thesis by blast
qed

lemma forecast_payroll_spec:
  "fmul (forecast_payroll self wk) (Some m) = spec_payroll (historical self) wk m"
  by (simp add: forecast_payroll_def spec_payroll_def mean_def isna_def Let_def
        comprehension_map_filter even_iff_mod_2_eq_zero)

text \<open>
  Claim C7. In every row the payroll is, when the ISO week of the week start is even, the
  mean of the historical Payroll amounts (50000 when there are none) times the expense
  multiplier of the scenario, and 0 when that ISO week is odd.
\<close>

theorem payroll_formula:
  assumes "generate_forecast self start_date opening scen = Inr rows"
    and "scenario_adjustments scen = Some adj"
    and "r \<in> set rows"
  shows "payroll r = spec_payroll (historical self) (week_start r) (adj_expenses adj)"
proof -
  from assms(1,2) have
    "rows = forecast_loop self adj scen 0 (Some opening) (date_range_W_MON start_date 13)"
    by (simp add: generate_forecast_Some)
  with assms(3) obtain k cb' where
    "r = forecast_row self adj scen (0 + k) cb' (date_range_W_MON start_date 13 ! k)"
    using forecast_loop_in_set by blast
  then show ?thesis
    by (simp add: forecast_payroll_spec)
qed

theorem payroll_formula_witness:
  "\<exists>rows adj. generate_forecast (init sample_history) sample_start 500000 ''best'' = Inr rows
     \<and> scenario_adjustments ''best'' = Some adj
     \<and> rows ! 3 \<in> set rows
     \<and> payroll (rows ! 3) =
           spec_payroll (historical (init sample_history)) (week_start (rows ! 3)) (adj_expenses adj)"
proof -
  let ?rows = "forecast_loop (init sample_history)
      \<lparr>adj_revenue = 1.15, adj_collections = 1.10, adj_expenses = 0.95\<rparr> ''best'' 0 (Some 500000)
      (date_range_W_MON sample_start 13)"
  have g: "generate_forecast (init sample_history) sample_start 500000 ''best'' = Inr ?rows"
    by (rule generate_forecast_Some [OF scenario_adjustments_best])
  have m: "?rows ! 3 \<in> set ?rows"
    by (rule nth_mem) simp
  from payroll_formula [OF g scenario_adjustments_best m] g m scenario_adjustments_best
  show ?thesis by blast
qed

section \<open>Missing categories\<close>

lemma map_const_replicate: "\<forall>x \<in> set xs. f x = c \<Longrightarrow> map f xs = replicate (length xs) c"
  by (induction xs) simp_all

lemma forecast_revenue_no_revenue_rows:
  assumes "\<forall>r \<in> set (historical self). category r \<noteq> ''Revenue''"
  shows "forecast_revenue self wk = None"
proof -
  from assms have "filter (\<lambda>r. category r = ''Revenue'') (historical self) = []"
    and "filter (\<lambda>r. category r = ''Revenue'' \<and> iso_week (date r) = iso_week wk) (historical self) = []"
    by (simp_all add: filter_empty_conv)
  then have "spec_base_revenue (historical self) wk = None"
    by (simp add: spec_base_revenue_def comprehension_map_filter)
  then show ?thesis
    by (simp add: forecast_revenue_spec)
qed

lemma forecast_loop_no_revenue_rows:
  assumes "\<forall>r \<in> set (historical self). category r \<noteq> ''Revenue''"
    and "row \<in> set (forecast_loop self adj scen i cb weeks)"
  shows "revenue row = None \<and> ending_balance row = None"
proof -
  from forecast_loop_in_set [OF assms(2)] obtain k cb' where
    "row = forecast_row self adj scen (i + k) cb' (weeks ! k)"
    by blast
  then show ?thesis
    by (simp add: forecast_row_identities forecast_revenue_no_revenue_rows [OF assms(1)])
qed

lemma historical_no_revenue_history:
  "\<forall>r \<in> set (historical (init no_revenue_history)). category r \<noteq> ''Revenue''"
  by (simp add: init_def no_revenue_history_def Let_def)

lemma forecast_opex_default:
  assumes "\<forall>r \<in> set (historical self). category r \<notin> set opex_categories"
  shows "forecast_opex self wk = Some 15000"
proof -
  from assms have "filter (\<lambda>r. category r \<in> set opex_categories) (historical self) = []"
    by (simp add: filter_empty_conv)
  then show ?thesis
    by (simp add: forecast_opex_def groupby_week_sum_def mean_def isna_def)
qed

lemma forecast_payroll_default:
  assumes "\<forall>r \<in> set (historical self). category r \<noteq> ''Payroll''"
  shows "forecast_payroll self wk = (if even (iso_week wk) then Some 50000 else Some 0)"
proof -
  from assms have "filter (\<lambda>r. category r = ''Payroll'') (historical self) = []"
    by (simp add: filter_empty_conv)
  then show ?thesis
    by (simp add: forecast_payroll_def mean_def isna_def even_iff_mod_2_eq_zero)
qed

text \<open>
  Claim C8. A category without historical rows must not be an error, and its projection
  must fall back to a default constant. Payroll (50000), operating expenses (15000) and
  the collection fractions do so, as the lemmas above and \<open>collection_patterns_init\<close>
  show. Revenue does not: its fallback is the mean of all Revenue amounts, which is not
  a number when there are none. On a history with payroll only the call succeeds with 13
  rows, and the revenue and the ending balance of every row are not numbers.
\<close>

theorem missing_revenue_forecast_undefined:
  "\<exists>rows. generate_forecast (init no_revenue_history) sample_start 500000 ''base'' = Inr rows
     \<and> length rows = 13
     \<and> map revenue rows = replicate 13 None
     \<and> map ending_balance rows = replicate 13 None"
proof -
  let ?rows = "forecast_loop (init no_revenue_history)
      \<lparr>adj_revenue = 1.00, adj_collections = 1.00, adj_expenses = 1.00\<rparr> ''base'' 0 (Some 500000)
      (date_range_W_MON sample_start 13)"
  have g: "generate_forecast (init no_revenue_history) sample_start 500000 ''base'' = Inr ?rows"
    by (rule generate_forecast_Some [OF scenario_adjustments_base])
  have len: "length ?rows = 13"
    by simp
  have "\<forall>row \<in> set ?rows. revenue row = None" "\<forall>row \<in> set ?rows. ending_balance row = None"
    using forecast_loop_no_revenue_rows [OF historical_no_revenue_history] by blast+
  then have "map revenue ?rows = replicate (length ?rows) None"
    "map ending_balance ?rows = replicate (length ?rows) None"
    by (simp_all only: map_const_replicate)
  with len have "map revenue ?rows = replicate 13 None"
    "map ending_balance ?rows = replicate 13 None"
    by simp_all
  with g len show ?thesis by blast
qed

section \<open>The sensitivity table\<close>

lemma last_of_13: "length xs = 13 \<Longrightarrow> last xs = xs ! 12"
  by (cases xs rule: rev_cases) (simp_all add: nth_append)

lemma week13_ending_loop:
  assumes "scenario_adjustments scen = Some adj"
  shows "week13_ending self start_date opening scen =
     ending_balance (forecast_loop self adj scen 0 (Some opening)
                       (date_range_W_MON start_date 13) ! 12)"
  using assms by (simp add: week13_ending_def generate_forecast_Some last_of_13)

lemma sensitivity_analysis_rows:
  "sensitivity_analysis self start_date opening =
     Inr (map (sensitivity_entry ''Revenue'' 1.5 (week13_ending self start_date opening ''base''))
              [-0.20, -0.10, 0, 0.10, 0.20]
        @ map (sensitivity_entry ''Collection Rate'' 0.8 (week13_ending self start_date opening ''base''))
              [-0.20, -0.10, 0, 0.10, 0.20])"
proof -
  let ?rows = "forecast_loop self
      \<lparr>adj_revenue = 1.00, adj_collections = 1.00, adj_expenses = 1.00\<rparr> ''base'' 0 (Some opening)
      (date_range_W_MON start_date 13)"
  have g: "generate_forecast self start_date opening ''base'' = Inr ?rows"
    by (rule generate_forecast_Some [OF scenario_adjustments_base])
  have "length ?rows \<noteq> 0" by simp
  then have "?rows \<noteq> []" by (simp only: length_0_conv not_False_eq_True)
  with g show ?thesis
    by (simp add: sensitivity_analysis_def week13_ending_def Let_def)
qed

lemma sensitivity_entry_fields [simp]:
  "variable (sensitivity_entry label e base c) = label"
  "sens_ending_balance (sensitivity_entry label e base c) = fmul base (Some (1 + c * e))"
  "variance_from_base (sensitivity_entry label e base c) = fsub (fmul base (Some (1 + c * e))) base"
  by (simp_all add: sensitivity_entry_def Let_def)

text \<open>
  What the sensitivity table is when the base case ends with a number \<open>b\<close>: ten rows, five
  for revenue with elasticity 1.5 and five for the collection rate with elasticity 0.8,
  each with its variance from \<open>b\<close>, which is 0 in the rows of no change.
\<close>

lemma sensitivity_analysis_defined:
  assumes "week13_ending self start_date opening ''base'' = Some b"
  shows "\<exists>rows. sensitivity_analysis self start_date opening = Inr rows
    \<and> length rows = 10
    \<and> map variable rows = replicate 5 ''Revenue'' @ replicate 5 ''Collection Rate''
    \<and> map sens_ending_balance rows =
         map (\<lambda>c. Some (b * (1 + c * 1.5))) [-0.20, -0.10, 0, 0.10, 0.20]
       @ map (\<lambda>c. Some (b * (1 + c * 0.8))) [-0.20, -0.10, 0, 0.10, 0.20]
    \<and> (\<forall>r \<in> set rows. variance_from_base r = fsub (sens_ending_balance r) (Some b))
    \<and> variance_from_base (rows ! 2) = Some 0
    \<and> variance_from_base (rows ! 7) = Some 0"
  unfolding sensitivity_analysis_rows assms
  by (simp add: numeral_eq_Suc)

text \<open>
  Claim C9. The table must have a variance of 0 in the rows of no change for every
  history. On the history with payroll only the base case ends with a value that is not
  a number (the missing revenue default of claim C8), and so do the ending balance and
  the variance of every row of the table, the rows of no change included.
\<close>

theorem missing_revenue_sensitivity_undefined:
  "\<exists>rows. sensitivity_analysis (init no_revenue_history) sample_start 500000 = Inr rows
     \<and> length rows = 10
     \<and> variable (rows ! 2) = ''Revenue''
     \<and> sens_ending_balance (rows ! 2) = None
     \<and> variance_from_base (rows ! 2) = None
     \<and> variable (rows ! 7) = ''Collection Rate''
     \<and> variance_from_base (rows ! 7) = None"
proof -
  let ?rows = "forecast_loop (init no_revenue_history)
      \<lparr>adj_revenue = 1.00, adj_collections = 1.00, adj_expenses = 1.00\<rparr> ''base'' 0 (Some 500000)
      (date_range_W_MON sample_start 13)"
  have "?rows ! 12 \<in> set ?rows"
    by (rule nth_mem) simp
  from forecast_loop_no_revenue_rows [OF historical_no_revenue_history this]
  have "week13_ending (init no_revenue_history) sample_start 500000 ''base'' = None"
    by (simp add: week13_ending_loop [OF scenario_adjustments_base])
  then show ?thesis
    unfolding sensitivity_analysis_rows by simp
qed

section \<open>The order of the scenarios\<close>

lemma lin_order:
  fixes x1 x2 y1 y2 p1 p2 q1 q2 b1 b2 :: real
  assumes "x2 \<le> x1" "y2 \<le> y1" "p1 \<le> p2" "q1 \<le> q2" "b2 \<le> b1"
  shows "b2 + ((x2 + y2) - (x2 * 0.35 + p2 + q2)) \<le> b1 + ((x1 + y1) - (x1 * 0.35 + p1 + q1))"
proof -
  have "x2 * 0.35 = x2 * (7 / 20)" "x1 * 0.35 = x1 * (7 / 20)"
    by simp_all
  with assms show ?thesis
    by linarith
qed

lemma step_order:
  fixes R C P X :: real
  assumes "0 \<le> R" "0 \<le> C" "0 \<le> P" "0 \<le> X"
    and "r2 \<le> r1" "c2 \<le> c1" "e1 \<le> e2" "b2 \<le> b1"
  shows "b2 + ((R * r2 + C * c2) - (R * r2 * 0.35 + P * e2 + X * e2))
       \<le> b1 + ((R * r1 + C * c1) - (R * r1 * 0.35 + P * e1 + X * e1))"
proof -
  have "R * r2 \<le> R * r1" "C * c2 \<le> C * c1" "P * e1 \<le> P * e2" "X * e1 \<le> X * e2"
    using assms by (simp_all add: mult_left_mono)
  from lin_order [OF this assms(8)] show ?thesis .
qed

lemma row_ending_defined:
  assumes "forecast_revenue self w = Some R" "forecast_ar_collections self w i = Some C"
    and "forecast_payroll self w = Some P" "forecast_opex self w = Some X"
  shows "ending_balance (forecast_row self adj scen i (Some b) w) =
     Some (b + ((R * adj_revenue adj + C * adj_collections adj)
              - (R * adj_revenue adj * 0.35 + P * adj_expenses adj + X * adj_expenses adj)))"
  using assms by (simp add: forecast_row_def Let_def)

lemma row_order:
  assumes mult: "adj_revenue a2 \<le> adj_revenue a1" "adj_collections a2 \<le> adj_collections a1"
      "adj_expenses a1 \<le> adj_expenses a2"
    and est: "is_pos (forecast_revenue self w)" "is_pos (forecast_ar_collections self w i)"
      "is_nonneg (forecast_payroll self w)" "is_nonneg (forecast_opex self w)"
    and bal: "fge cb1 cb2"
  shows "fge (ending_balance (forecast_row self a1 s1 i cb1 w))
             (ending_balance (forecast_row self a2 s2 i cb2 w))"
proof -
  from est obtain R C P X where
    vals: "forecast_revenue self w = Some R" "forecast_ar_collections self w i = Some C"
      "forecast_payroll self w = Some P" "forecast_opex self w = Some X"
    and signs: "0 < R" "0 < C" "0 \<le> P" "0 \<le> X"
    by (auto simp: is_pos_def is_nonneg_def split: option.splits)
  from bal obtain b1 b2 where b: "cb1 = Some b1" "cb2 = Some b2" "b2 \<le> b1"
    by (auto simp: fge_def split: option.splits)
  from signs have "0 \<le> R" "0 \<le> C" by simp_all
  from step_order [OF this signs(3,4) mult b(3)]
  show ?thesis
    by (simp add: b row_ending_defined [OF vals] fge_def)
qed

lemma forecast_loop_order:
  assumes mult: "adj_revenue a2 \<le> adj_revenue a1" "adj_collections a2 \<le> adj_collections a1"
      "adj_expenses a1 \<le> adj_expenses a2"
  shows "list_all (\<lambda>(k, wk). is_pos (forecast_revenue self wk)
                       \<and> is_pos (forecast_ar_collections self wk k)) (enumerate i weeks) \<Longrightarrow>
     list_all (\<lambda>wk. is_nonneg (forecast_payroll self wk) \<and> is_nonneg (forecast_opex self wk)) weeks \<Longrightarrow>
     fge cb1 cb2 \<Longrightarrow>
     list_all2 (\<lambda>r1 r2. fge (ending_balance r1) (ending_balance r2))
       (forecast_loop self a1 s1 i cb1 weeks) (forecast_loop self a2 s2 i cb2 weeks)"
proof (induction weeks arbitrary: i cb1 cb2)
  case Nil
  then show ?case by simp
next
  case (Cons w weeks)
  from Cons.prems have est: "is_pos (forecast_revenue self w)"
      "is_pos (forecast_ar_collections self w i)"
      "is_nonneg (forecast_payroll self w)" "is_nonneg (forecast_opex self w)"
    and rest: "list_all (\<lambda>(k, wk). is_pos (forecast_revenue self wk)
                       \<and> is_pos (forecast_ar_collections self wk k)) (enumerate (Suc i) weeks)"
      "list_all (\<lambda>wk. is_nonneg (forecast_payroll self wk) \<and> is_nonneg (forecast_opex self wk)) weeks"
    by simp_all
  have row: "fge (ending_balance (forecast_row self a1 s1 i cb1 w))
                 (ending_balance (forecast_row self a2 s2 i cb2 w))"
    by (rule row_order [OF mult est Cons.prems(3)])
  from Cons.IH [OF rest row] row show ?case
    by (simp add: Let_def)
qed

lemma sum_list_pos_real: "xs \<noteq> [] \<Longrightarrow> \<forall>x \<in> set xs. (0::real) < x \<Longrightarrow> 0 < sum_list xs"
proof (induction xs)
  case Nil
  then show ?case by simp
next
  case (Cons x xs)
  then show ?case
    by (cases "xs = []") (simp_all add: add_pos_pos)
qed

lemma sum_list_le_real: "\<forall>x \<in> set xs. x \<le> (M::real) \<Longrightarrow> sum_list xs \<le> M * real (length xs)"
  by (induction xs) (simp_all add: algebra_simps)

lemma mean_bounds:
  assumes "xs \<noteq> []" and "\<forall>x \<in> set xs. 0 < x \<and> x \<le> M"
  shows "0 < sum_list xs / real (length xs) \<and> sum_list xs / real (length xs) \<le> M"
proof -
  from assms(1) have len: "0 < real (length xs)" by simp
  from assms have "0 < sum_list xs" "sum_list xs \<le> M * real (length xs)"
    by (simp_all add: sum_list_pos_real sum_list_le_real)
  with len show ?thesis
    by (simp add: pos_divide_le_eq)
qed

lemma spec_base_revenue_bounds:
  assumes "\<exists>r \<in> set hist. category r = ''Revenue''"
    and "\<forall>r \<in> set hist. category r = ''Revenue'' \<longrightarrow> 0 < amount r \<and> amount r \<le> M"
  shows "\<exists>m. spec_base_revenue hist wk = Some m \<and> 0 < m \<and> m \<le> M"
proof -
  let ?matching = "map amount (filter (\<lambda>r. category r = ''Revenue'' \<and> iso_week (date r) = iso_week wk) hist)"
  let ?all = "map amount (filter (\<lambda>r. category r = ''Revenue'') hist)"
  from assms(1) have nonempty: "?all \<noteq> []"
    by (simp add: filter_empty_conv)
  from assms(2) have all: "\<forall>x \<in> set ?all. 0 < x \<and> x \<le> M"
    and matching: "\<forall>x \<in> set ?matching. 0 < x \<and> x \<le> M"
    by auto
  show ?thesis
  proof (cases "?matching = []")
    case True
    from mean_bounds [OF nonempty all]
    have "0 < sum_list ?all / real (length ?all) / 4 \<and> sum_list ?all / real (length ?all) / 4 \<le> M"
      by simp
    with True nonempty show ?thesis
      by (simp add: spec_base_revenue_def comprehension_map_filter)
  next
    case False
    from mean_bounds [OF False matching] False show ?thesis
      by (simp add: spec_base_revenue_def comprehension_map_filter)
  qed
qed

lemma spec_growth_factor_bounds:
  assumes "min_date hist = Some d0" and "d0 \<le> wk" and "wk \<le> d0 + 7280 * ns_per_day"
  shows "\<exists>g. spec_growth_factor hist wk = Some g \<and> 1 \<le> g \<and> g \<le> 2"
proof -
  from assms(1) have hist: "hist \<noteq> []" and d0: "Min (date ` set hist) = d0"
    by (simp_all add: min_date_def split: if_splits)
  have "0 \<le> (wk - d0) div ns_per_day"
    using assms(2) by (simp add: ns_per_day_def)
  moreover have "(wk - d0) div ns_per_day \<le> 7280"
    using assms(3) by (simp add: ns_per_day_def)
  ultimately have "0 \<le> real_of_int ((wk - d0) div ns_per_day)"
    and "real_of_int ((wk - d0) div ns_per_day) \<le> 7280"
    by simp_all
  then have "1 \<le> 1 + 0.05 * ((real_of_int ((wk - d0) div ns_per_day) / 7) / 52)
      \<and> 1 + 0.05 * ((real_of_int ((wk - d0) div ns_per_day) / 7) / 52) \<le> 2"
    by simp
  with hist d0 show ?thesis
    by (simp add: spec_growth_factor_def)
qed

lemma forecast_revenue_bounds:
  assumes "\<exists>r \<in> set (historical self). category r = ''Revenue''"
    and "\<forall>r \<in> set (historical self). category r = ''Revenue'' \<longrightarrow> 0 < amount r \<and> amount r \<le> M"
    and "min_date (historical self) = Some d0" and "d0 \<le> wk" and "wk \<le> d0 + 7280 * ns_per_day"
  shows "\<exists>R. forecast_revenue self wk = Some R \<and> 0 < R \<and> R \<le> 2 * M"
proof -
  from spec_base_revenue_bounds [OF assms(1,2)] obtain m where
    m: "spec_base_revenue (historical self) wk = Some m" "0 < m" "m \<le> M"
    by blast
  from spec_growth_factor_bounds [OF assms(3,4,5)] obtain g where
    g: "spec_growth_factor (historical self) wk = Some g" "1 \<le> g" "g \<le> 2"
    by blast
  from m g have "0 < m * g"
    by simp
  moreover from m g have "m * g \<le> M * 2"
    by (intro mult_mono) simp_all
  ultimately show ?thesis
    by (simp add: forecast_revenue_spec m(1) g(1) mult.commute)
qed

lemma forecast_ar_collections_bounds:
  assumes "\<forall>lag<5. \<exists>R. forecast_revenue (init h) (wk - int lag * 7 * ns_per_day) = Some R
             \<and> 0 < R \<and> R \<le> B"
  shows "\<exists>C. forecast_ar_collections (init h) wk i = Some C \<and> 0 < C \<and> C \<le> B"
proof -
  have lag: "\<exists>R. forecast_revenue (init h) (wk - int lag * 7 * ns_per_day) = Some R
             \<and> 0 < R \<and> R \<le> B" if "lag < 5" for lag
    using assms that by blast
  from lag [of 0] obtain R0 where
    R0: "forecast_revenue (init h) (wk - int 0 * 7 * ns_per_day) = Some R0" "0 < R0" "R0 \<le> B"
    by auto
  from lag [of 1] obtain R1 where
    R1: "forecast_revenue (init h) (wk - int 1 * 7 * ns_per_day) = Some R1" "0 < R1" "R1 \<le> B"
    by auto
  from lag [of 2] obtain R2 where
    R2: "forecast_revenue (init h) (wk - int 2 * 7 * ns_per_day) = Some R2" "0 < R2" "R2 \<le> B"
    by auto
  from lag [of 3] obtain R3 where
    R3: "forecast_revenue (init h) (wk - int 3 * 7 * ns_per_day) = Some R3" "0 < R3" "R3 \<le> B"
    by auto
  from lag [of 4] obtain R4 where
    R4: "forecast_revenue (init h) (wk - int 4 * 7 * ns_per_day) = Some R4" "0 < R4" "R4 \<le> B"
    by auto
  note R = R0(1) R1(1) R2(1) R3(1) R4(1)
  note bounds = R0(2,3) R1(2,3) R2(2,3) R3(2,3) R4(2,3)
  have sum: "forecast_ar_collections (init h) wk i =
      Some (if i = 0 then R0 * 0.30
            else if i = 1 then R0 * 0.30 + R1 * 0.40
            else if i = 2 then R0 * 0.30 + (R1 * 0.40 + R2 * 0.20)
            else if i = 3 then R0 * 0.30 + (R1 * 0.40 + (R2 * 0.20 + R3 * 0.08))
            else R0 * 0.30 + (R1 * 0.40 + (R2 * 0.20 + (R3 * 0.08 + R4 * 0.02))))"
    unfolding forecast_ar_collections_sum lags_upto fsum_def
    using R by (simp add: spec_collection_fractions_def)
  have "0 < (if i = 0 then R0 * 0.30
            else if i = 1 then R0 * 0.30 + R1 * 0.40
            else if i = 2 then R0 * 0.30 + (R1 * 0.40 + R2 * 0.20)
            else if i = 3 then R0 * 0.30 + (R1 * 0.40 + (R2 * 0.20 + R3 * 0.08))
            else R0 * 0.30 + (R1 * 0.40 + (R2 * 0.20 + (R3 * 0.08 + R4 * 0.02))))"
    using bounds by (simp add: add_pos_pos)
  moreover have "(if i = 0 then R0 * 0.30
            else if i = 1 then R0 * 0.30 + R1 * 0.40
            else if i = 2 then R0 * 0.30 + (R1 * 0.40 + R2 * 0.20)
            else if i = 3 then R0 * 0.30 + (R1 * 0.40 + (R2 * 0.20 + R3 * 0.08))
            else R0 * 0.30 + (R1 * 0.40 + (R2 * 0.20 + (R3 * 0.08 + R4 * 0.02)))) \<le> B"
    using bounds by simp
  ultimately show ?thesis
    using sum by blast
qed

lemma forecast_window:
  assumes "d0 + 28 * ns_per_day \<le> start_date"
    and "start_date + 91 * ns_per_day \<le> d0 + 7280 * ns_per_day"
    and "k < 13" and "lag < 5"
  shows "d0 \<le> date_range_W_MON start_date 13 ! k - int lag * 7 * ns_per_day
       \<and> date_range_W_MON start_date 13 ! k - int lag * 7 * ns_per_day \<le> d0 + 7280 * ns_per_day"
proof -
  from rollforward_MON_bounds [of start_date] obtain d where
    d: "0 \<le> d" "d < 7" "rollforward_MON start_date = start_date + d * ns_per_day"
    by blast
  from assms(3,4) have "int k \<le> 12" "0 \<le> int k" "int lag \<le> 4" "0 \<le> int lag"
    by simp_all
  with d(1,2) assms(1,2) show ?thesis
    unfolding nth_date_range_W_MON [OF assms(3)] d(3) ns_per_day_def
    by linarith
qed

lemma estimates_bounded:
  assumes "\<exists>r \<in> set (historical (init h)). category r = ''Revenue''"
    and "\<forall>r \<in> set (historical (init h)). category r = ''Revenue'' \<longrightarrow> 0 < amount r \<and> amount r \<le> M"
    and "min_date (historical (init h)) = Some d0"
    and "d0 + 28 * ns_per_day \<le> start_date"
    and "start_date + 91 * ns_per_day \<le> d0 + 7280 * ns_per_day"
    and "k < 13"
  shows "(\<exists>R. forecast_revenue (init h) (date_range_W_MON start_date 13 ! k) = Some R
            \<and> 0 < R \<and> R \<le> 2 * M)
       \<and> (\<exists>C. forecast_ar_collections (init h) (date_range_W_MON start_date 13 ! k) k = Some C
            \<and> 0 < C \<and> C \<le> 2 * M)"
proof -
  let ?wk = "date_range_W_MON start_date 13 ! k"
  have lagged: "\<exists>R. forecast_revenue (init h) (?wk - int lag * 7 * ns_per_day) = Some R
      \<and> 0 < R \<and> R \<le> 2 * M" if "lag < 5" for lag
  proof -
    from forecast_window [OF assms(4,5,6) that]
    have "d0 \<le> ?wk - int lag * 7 * ns_per_day"
      and "?wk - int lag * 7 * ns_per_day \<le> d0 + 7280 * ns_per_day"
      by simp_all
    then show ?thesis
      by (rule forecast_revenue_bounds [OF assms(1,2,3)])
  qed
  from lagged [of 0] have "\<exists>R. forecast_revenue (init h) ?wk = Some R \<and> 0 < R \<and> R \<le> 2 * M"
    by simp
  moreover from lagged have "\<exists>C. forecast_ar_collections (init h) ?wk k = Some C \<and> 0 < C \<and> C \<le> 2 * M"
    by (intro forecast_ar_collections_bounds) blast
  ultimately show ?thesis ..
qed

lemma estimates_positive_init:
  assumes "\<exists>r \<in> set (historical (init h)). category r = ''Revenue''"
    and "\<forall>r \<in> set (historical (init h)). category r = ''Revenue'' \<longrightarrow> 0 < amount r \<and> amount r \<le> M"
    and "min_date (historical (init h)) = Some d0"
    and "d0 + 28 * ns_per_day \<le> start_date"
    and "start_date + 91 * ns_per_day \<le> d0 + 7280 * ns_per_day"
  shows "estimates_positive (init h) start_date"
proof -
  have "is_pos (forecast_revenue (init h) (date_range_W_MON start_date 13 ! k))
      \<and> is_pos (forecast_ar_collections (init h) (date_range_W_MON start_date 13 ! k) k)"
    if "k < 13" for k
    using estimates_bounded [OF assms that] by (auto simp: is_pos_def)
  then show ?thesis
    by (simp add: estimates_positive_def list_all_length nth_enumerate_eq)
qed

lemma historical_sample_history:
  "historical (init sample_history) =
     [\<lparr>date = 1704067200000000000, category = ''Revenue'', amount = 100000,
       payment_terms = ''Net 30'', week = to_period_W 1704067200000000000\<rparr>,
      \<lparr>date = 1704672000000000000, category = ''Revenue'', amount = 120000,
       payment_terms = ''Net 30'', week = to_period_W 1704672000000000000\<rparr>,
      \<lparr>date = 1704067200000000000, category = ''Payroll'', amount = 55000,
       payment_terms = ''Immediate'', week = to_period_W 1704067200000000000\<rparr>,
      \<lparr>date = 1704153600000000000, category = ''Rent'', amount = 12000,
       payment_terms = ''Net 30'', week = to_period_W 1704153600000000000\<rparr>]"
  by (simp add: init_def sample_history_def Let_def)

lemma historical_negative_opex_history:
  "historical (init negative_opex_history) =
     [\<lparr>date = 1704067200000000000, category = ''Revenue'', amount = 1,
       payment_terms = ''Net 30'', week = to_period_W 1704067200000000000\<rparr>,
      \<lparr>date = 1704067200000000000, category = ''Payroll'', amount = 0,
       payment_terms = ''Immediate'', week = to_period_W 1704067200000000000\<rparr>,
      \<lparr>date = 1704067200000000000, category = ''Rent'', amount = - 1000,
       payment_terms = ''Net 30'', week = to_period_W 1704067200000000000\<rparr>]"
  by (simp add: init_def negative_opex_history_def Let_def)

lemma sample_history_estimates_positive:
  "estimates_positive (init sample_history) sample_start"
proof (rule estimates_positive_init [where M = 120000 and ?d0.0 = 1704067200000000000])
  show "\<exists>r \<in> set (historical (init sample_history)). category r = ''Revenue''"
    by (simp add: historical_sample_history)
  show "\<forall>r \<in> set (historical (init sample_history)).
          category r = ''Revenue'' \<longrightarrow> 0 < amount r \<and> amount r \<le> 120000"
    by (simp add: historical_sample_history)
  show "min_date (historical (init sample_history)) = Some 1704067200000000000"
    by (simp add: historical_sample_history min_date_def)
  show "1704067200000000000 + 28 * ns_per_day \<le> sample_start"
    by (simp add: ns_per_day_def sample_start_def)
  show "sample_start + 91 * ns_per_day \<le> 1704067200000000000 + 7280 * ns_per_day"
    by (simp add: ns_per_day_def sample_start_def)
qed

lemma sample_history_payroll:
  "forecast_payroll (init sample_history) wk = (if even (iso_week wk) then Some 55000 else Some 0)"
  by (simp add: forecast_payroll_def historical_sample_history mean_def isna_def
        even_iff_mod_2_eq_zero)

lemma sample_history_opex: "forecast_opex (init sample_history) wk = Some 12000"
  by (simp add: forecast_opex_def historical_sample_history groupby_week_sum_def
        opex_categories_def mean_def isna_def)

lemma sample_history_expenses_nonneg: "expenses_nonneg (init sample_history) sample_start"
  by (simp add: expenses_nonneg_def list_all_iff sample_history_payroll sample_history_opex
        is_nonneg_def)

lemma negative_opex_history_payroll:
  "forecast_payroll (init negative_opex_history) wk = Some 0"
  by (simp add: forecast_payroll_def historical_negative_opex_history mean_def isna_def)

lemma negative_opex_history_opex:
  "forecast_opex (init negative_opex_history) wk = Some (- 1000)"
  by (simp add: forecast_opex_def historical_negative_opex_history groupby_week_sum_def
        opex_categories_def mean_def isna_def)

lemma negative_opex_history_estimates:
  assumes "k < 13"
  shows "(\<exists>R. forecast_revenue (init negative_opex_history)
                 (date_range_W_MON sample_start 13 ! k) = Some R \<and> 0 < R \<and> R \<le> 2 * 1)
       \<and> (\<exists>C. forecast_ar_collections (init negative_opex_history)
                 (date_range_W_MON sample_start 13 ! k) k = Some C \<and> 0 < C \<and> C \<le> 2 * 1)"
proof (rule estimates_bounded [where ?d0.0 = 1704067200000000000])
  show "\<exists>r \<in> set (historical (init negative_opex_history)). category r = ''Revenue''"
    by (simp add: historical_negative_opex_history)
  show "\<forall>r \<in> set (historical (init negative_opex_history)).
          category r = ''Revenue'' \<longrightarrow> 0 < amount r \<and> amount r \<le> 1"
    by (simp add: historical_negative_opex_history)
  show "min_date (historical (init negative_opex_history)) = Some 1704067200000000000"
    by (simp add: historical_negative_opex_history min_date_def)
  show "1704067200000000000 + 28 * ns_per_day \<le> sample_start"
    by (simp add: ns_per_day_def sample_start_def)
  show "sample_start + 91 * ns_per_day \<le> 1704067200000000000 + 7280 * ns_per_day"
    by (simp add: ns_per_day_def sample_start_def)
  show "k < 13" by (rule assms)
qed

text \<open>
  With operating expenses of \<open>-1000\<close> a week and revenue and collections of at most 2, a
  week of the best case adds less to the balance than the same week of the base case.
\<close>

lemma negative_opex_row:
  assumes "forecast_revenue self w = Some R" "0 < R" "R \<le> 2"
    and "forecast_ar_collections self w i = Some C" "0 < C" "C \<le> 2"
    and "forecast_payroll self w = Some 0" "forecast_opex self w = Some (- 1000)"
    and "b1 \<le> b2"
  shows "\<exists>x y. ending_balance (forecast_row self
                  \<lparr>adj_revenue = 1.15, adj_collections = 1.10, adj_expenses = 0.95\<rparr>
                  s1 i (Some b1) w) = Some x
             \<and> ending_balance (forecast_row self
                  \<lparr>adj_revenue = 1.00, adj_collections = 1.00, adj_expenses = 1.00\<rparr>
                  s2 i (Some b2) w) = Some y
             \<and> x < y"
proof -
  have "b1 + ((R * 1.15 + C * 1.10) - (R * 1.15 * 0.35 + 0 * 0.95 + (- 1000) * 0.95))
      < b2 + ((R * 1.00 + C * 1.00) - (R * 1.00 * 0.35 + 0 * 1.00 + (- 1000) * 1.00))"
    using assms(2,3,5,6,9) by simp
  then show ?thesis
    by (simp add: row_ending_defined [OF assms(1,4,7,8)])
qed

lemma negative_opex_loop:
  "list_all (\<lambda>(k, wk). (\<exists>R. forecast_revenue self wk = Some R \<and> 0 < R \<and> R \<le> 2)
                     \<and> (\<exists>C. forecast_ar_collections self wk k = Some C \<and> 0 < C \<and> C \<le> 2)
                     \<and> forecast_payroll self wk = Some 0
                     \<and> forecast_opex self wk = Some (- 1000)) (enumerate i weeks) \<Longrightarrow>
   b1 \<le> b2 \<Longrightarrow>
   list_all2 (\<lambda>r1 r2. \<exists>x y. ending_balance r1 = Some x \<and> ending_balance r2 = Some y \<and> x < y)
     (forecast_loop self \<lparr>adj_revenue = 1.15, adj_collections = 1.10, adj_expenses = 0.95\<rparr>
        s1 i (Some b1) weeks)
     (forecast_loop self \<lparr>adj_revenue = 1.00, adj_collections = 1.00, adj_expenses = 1.00\<rparr>
        s2 i (Some b2) weeks)"
proof (induction weeks arbitrary: i b1 b2)
  case Nil
  then show ?case by simp
next
  case (Cons w weeks)
  from Cons.prems(1) obtain R C where
    est: "forecast_revenue self w = Some R" "0 < R" "R \<le> 2"
      "forecast_ar_collections self w i = Some C" "0 < C" "C \<le> 2"
      "forecast_payroll self w = Some 0" "forecast_opex self w = Some (- 1000)"
    by auto
  from Cons.prems(1) have rest:
    "list_all (\<lambda>(k, wk). (\<exists>R. forecast_revenue self wk = Some R \<and> 0 < R \<and> R \<le> 2)
                     \<and> (\<exists>C. forecast_ar_collections self wk k = Some C \<and> 0 < C \<and> C \<le> 2)
                     \<and> forecast_payroll self wk = Some 0
                     \<and> forecast_opex self wk = Some (- 1000)) (enumerate (Suc i) weeks)"
    by simp
  from negative_opex_row [where ?s1.0 = s1 and ?s2.0 = s2, OF est Cons.prems(2)] obtain x y where
    xy: "ending_balance (forecast_row self
            \<lparr>adj_revenue = 1.15, adj_collections = 1.10, adj_expenses = 0.95\<rparr>
            s1 i (Some b1) w) = Some x"
        "ending_balance (forecast_row self
            \<lparr>adj_revenue = 1.00, adj_collections = 1.00, adj_expenses = 1.00\<rparr>
            s2 i (Some b2) w) = Some y"
        "x < y"
    by blast
  from xy(3) have "x \<le> y" by simp
  from Cons.IH [OF rest this] xy show ?case
    by (simp add: Let_def)
qed

lemma negative_opex_history_expenses_flat:
  "expenses_flat (init negative_opex_history) sample_start"
  by (simp add: expenses_flat_def Let_def list_all_iff negative_opex_history_payroll
        negative_opex_history_opex)

lemma negative_opex_history_estimates_positive:
  "estimates_positive (init negative_opex_history) sample_start"
proof -
  have "is_pos (forecast_revenue (init negative_opex_history) (date_range_W_MON sample_start 13 ! k))
      \<and> is_pos (forecast_ar_collections (init negative_opex_history)
                  (date_range_W_MON sample_start 13 ! k) k)"
    if "k < 13" for k
    using negative_opex_history_estimates [OF that] by (auto simp: is_pos_def)
  then show ?thesis
    by (simp add: estimates_positive_def list_all_length nth_enumerate_eq)
qed

text \<open>
  Claim C10, as amended. When in every week of the forecast the revenue estimate and the
  collections estimate (before the scenario multipliers) are strictly positive and the
  payroll and operating-expense estimates are not negative, the ending balance of week 13
  in the best case is at least that of the base case, which is at least that of the
  worst case, whatever the start date and the opening balance.
\<close>

theorem scenario_order_nonneg_expenses:
  assumes "estimates_positive self start_date" and "expenses_nonneg self start_date"
  shows "fge (week13_ending self start_date opening ''best'')
             (week13_ending self start_date opening ''base'')
       \<and> fge (week13_ending self start_date opening ''base'')
             (week13_ending self start_date opening ''worst'')"
proof -
  let ?weeks = "date_range_W_MON start_date 13"
  let ?best = "\<lparr>adj_revenue = 1.15, adj_collections = 1.10, adj_expenses = 0.95\<rparr>"
  let ?base = "\<lparr>adj_revenue = 1.00, adj_collections = 1.00, adj_expenses = 1.00\<rparr>"
  let ?worst = "\<lparr>adj_revenue = 0.85, adj_collections = 0.90, adj_expenses = 1.05\<rparr>"
  from assms have est:
    "list_all (\<lambda>(k, wk). is_pos (forecast_revenue self wk)
                       \<and> is_pos (forecast_ar_collections self wk k)) (enumerate 0 ?weeks)"
    "list_all (\<lambda>wk. is_nonneg (forecast_payroll self wk) \<and> is_nonneg (forecast_opex self wk)) ?weeks"
    by (simp_all add: estimates_positive_def expenses_nonneg_def)
  have start: "fge (Some opening) (Some opening)"
    by (simp add: fge_def)
  have "list_all2 (\<lambda>r1 r2. fge (ending_balance r1) (ending_balance r2))
       (forecast_loop self ?best ''best'' 0 (Some opening) ?weeks)
       (forecast_loop self ?base ''base'' 0 (Some opening) ?weeks)"
    by (rule forecast_loop_order [OF _ _ _ est start]) simp_all
  then have upper: "fge (week13_ending self start_date opening ''best'')
             (week13_ending self start_date opening ''base'')"
    by (simp add: week13_ending_loop [OF scenario_adjustments_best]
          week13_ending_loop [OF scenario_adjustments_base] list_all2_conv_all_nth)
  have "list_all2 (\<lambda>r1 r2. fge (ending_balance r1) (ending_balance r2))
       (forecast_loop self ?base ''base'' 0 (Some opening) ?weeks)
       (forecast_loop self ?worst ''worst'' 0 (Some opening) ?weeks)"
    by (rule forecast_loop_order [OF _ _ _ est start]) simp_all
  then have lower: "fge (week13_ending self start_date opening ''base'')
             (week13_ending self start_date opening ''worst'')"
    by (simp add: week13_ending_loop [OF scenario_adjustments_worst]
          week13_ending_loop [OF scenario_adjustments_base] list_all2_conv_all_nth)
  from upper lower show ?thesis ..
qed

theorem scenario_order_nonneg_expenses_witness:
  "estimates_positive (init sample_history) sample_start
   \<and> expenses_nonneg (init sample_history) sample_start
   \<and> fge (week13_ending (init sample_history) sample_start 500000 ''best'')
         (week13_ending (init sample_history) sample_start 500000 ''base'')
   \<and> fge (week13_ending (init sample_history) sample_start 500000 ''base'')
         (week13_ending (init sample_history) sample_start 500000 ''worst'')"
  using sample_history_estimates_positive sample_history_expenses_nonneg
    scenario_order_nonneg_expenses [of "init sample_history" sample_start 500000]
  by blast

text \<open>
  Flat payroll and operating expenses do not suffice, as the claim has it. In the history
  that books rent as \<open>-1000\<close>, payroll is 0 and operating expenses are \<open>-1000\<close> in every
  week, revenue and collections are strictly positive, and the best case ends week 13
  below the base case: the expense multiplier 0.95 shrinks the negative expense.
\<close>

theorem scenario_order_counterexample:
  "estimates_positive (init negative_opex_history) sample_start
   \<and> expenses_flat (init negative_opex_history) sample_start
   \<and> \<not> fge (week13_ending (init negative_opex_history) sample_start 500000 ''best'')
           (week13_ending (init negative_opex_history) sample_start 500000 ''base'')"
proof -
  let ?weeks = "date_range_W_MON sample_start 13"
  have "list_all (\<lambda>(k, wk).
            (\<exists>R. forecast_revenue (init negative_opex_history) wk = Some R \<and> 0 < R \<and> R \<le> 2)
          \<and> (\<exists>C. forecast_ar_collections (init negative_opex_history) wk k = Some C \<and> 0 < C \<and> C \<le> 2)
          \<and> forecast_payroll (init negative_opex_history) wk = Some 0
          \<and> forecast_opex (init negative_opex_history) wk = Some (- 1000)) (enumerate 0 ?weeks)"
    using negative_opex_history_estimates
    by (simp add: list_all_length nth_enumerate_eq negative_opex_history_payroll
          negative_opex_history_opex)
  from negative_opex_loop [where ?b1.0 = 500000 and ?b2.0 = 500000
      and ?s1.0 = "''best''" and ?s2.0 = "''base''", OF this order_refl]
  have "\<exists>x y. week13_ending (init negative_opex_history) sample_start 500000 ''best'' = Some x
      \<and> week13_ending (init negative_opex_history) sample_start 500000 ''base'' = Some y
      \<and> x < y"
    by (simp add: week13_ending_loop [OF scenario_adjustments_best]
          week13_ending_loop [OF scenario_adjustments_base] list_all2_conv_all_nth)
  then have "\<not> fge (week13_ending (init negative_opex_history) sample_start 500000 ''best'')
           (week13_ending (init negative_opex_history) sample_start 500000 ''base'')"
    by (auto simp: fge_def)
  with negative_opex_history_estimates_positive negative_opex_history_expenses_flat
  show ?thesis by blast
qed

section \<open>Row identities as comparisons\<close>

text \<open>
  Where the ending balance of a row is a number, every amount of the row is one, and the
  identities of the row hold as comparisons of numbers; so does the continuity with the
  row before.
\<close>

lemma feq_simps [simp]:
  "feq (Some x) (Some y) = (x = y)" "feq None b = False" "feq a None = False"
  by (simp_all add: feq_def split: option.splits)

lemma feq_same: "a \<noteq> None \<Longrightarrow> feq a a"
  by (cases a) simp_all

lemma fadd_number: "fadd a b \<noteq> None \<Longrightarrow> a \<noteq> None \<and> b \<noteq> None"
  by (cases a; cases b) simp_all

lemma fsub_number: "fsub a b \<noteq> None \<Longrightarrow> a \<noteq> None \<and> b \<noteq> None"
  by (cases a; cases b) simp_all

lemma fge_number: "fge a b \<Longrightarrow> a \<noteq> None \<and> b \<noteq> None"
  by (cases a; cases b) (simp_all add: fge_def)

lemma row_identities_numbers:
  assumes "generate_forecast self start_date opening scen = Inr rows"
    and "r \<in> set rows" and "ending_balance r \<noteq> None"
  shows "feq (total_inflows r) (fadd (revenue r) (ar_collections r))
    \<and> feq (total_outflows r) (fadd (fadd (cogs r) (payroll r)) (operating_expenses r))
    \<and> feq (net_cash_flow r) (fsub (total_inflows r) (total_outflows r))
    \<and> feq (ending_balance r) (fadd (opening_balance r) (net_cash_flow r))"
proof -
  from forecast_rows_structure [OF assms(1)] assms(2) have
    s: "total_inflows r = fadd (revenue r) (ar_collections r)"
       "total_outflows r = fadd (fadd (cogs r) (payroll r)) (operating_expenses r)"
       "net_cash_flow r = fsub (total_inflows r) (total_outflows r)"
       "ending_balance r = fadd (opening_balance r) (net_cash_flow r)"
    by blast+
  from assms(3) s(4) have net: "net_cash_flow r \<noteq> None"
    using fadd_number by metis
  with s(3) have "total_inflows r \<noteq> None" "total_outflows r \<noteq> None"
    using fsub_number by metis+
  with net assms(3) have
    "feq (total_inflows r) (total_inflows r)" "feq (total_outflows r) (total_outflows r)"
    "feq (net_cash_flow r) (net_cash_flow r)" "feq (ending_balance r) (ending_balance r)"
    by (simp_all add: feq_same)
  with s show ?thesis
    by simp
qed

lemma balance_continuity_numbers:
  assumes "generate_forecast self start_date opening scen = Inr rows"
    and "0 < i" and "i < 13" and "ending_balance (rows ! i) \<noteq> None"
  shows "feq (opening_balance (rows ! i)) (ending_balance (rows ! (i - 1)))"
proof -
  from forecast_rows_structure [OF assms(1)] assms(2,3) have
    len: "length rows = 13"
    and c: "opening_balance (rows ! i) = ending_balance (rows ! (i - 1))"
    and "\<forall>r \<in> set rows. ending_balance r = fadd (opening_balance r) (net_cash_flow r)"
    by blast+
  moreover from len assms(3) have "rows ! i \<in> set rows"
    by simp
  ultimately have "ending_balance (rows ! i) =
      fadd (opening_balance (rows ! i)) (net_cash_flow (rows ! i))"
    by blast
  with assms(4) have "opening_balance (rows ! i) \<noteq> None"
    using fadd_number by metis
  then have "feq (opening_balance (rows ! i)) (opening_balance (rows ! i))"
    by (rule feq_same)
  with c show ?thesis
    by simp
qed

text \<open>In the sample history every row of the base case ends with a number.\<close>

lemma sample_history_rows_numbers:
  assumes "generate_forecast (init sample_history) sample_start 500000 ''base'' = Inr rows"
    and "i < 13"
  shows "ending_balance (rows ! i) \<noteq> None"
proof -
  let ?base = "\<lparr>adj_revenue = 1.00, adj_collections = 1.00, adj_expenses = 1.00\<rparr>"
  let ?weeks = "date_range_W_MON sample_start 13"
  from assms(1) have rows: "rows = forecast_loop (init sample_history) ?base ''base'' 0
      (Some 500000) ?weeks"
    by (simp add: generate_forecast_Some [OF scenario_adjustments_base])
  have est:
    "list_all (\<lambda>(k, wk). is_pos (forecast_revenue (init sample_history) wk)
                       \<and> is_pos (forecast_ar_collections (init sample_history) wk k))
       (enumerate 0 ?weeks)"
    "list_all (\<lambda>wk. is_nonneg (forecast_payroll (init sample_history) wk)
                  \<and> is_nonneg (forecast_opex (init sample_history) wk)) ?weeks"
    using sample_history_estimates_positive sample_history_expenses_nonneg
    by (simp_all add: estimates_positive_def expenses_nonneg_def)
  have "fge (Some 500000) (Some 500000)"
    by (simp add: fge_def)
  from forecast_loop_order [OF order_refl order_refl order_refl est this,
      of ?base "''base''" "''base''"]
  have "fge (ending_balance (rows ! i)) (ending_balance (rows ! i))"
    using assms(2) by (simp add: rows list_all2_conv_all_nth)
  then show ?thesis
    using fge_number by blast
qed

lemma sample_history_row_identities:
  "\<exists>rows. generate_forecast (init sample_history) sample_start 500000 ''base'' = Inr rows
     \<and> feq (total_inflows (rows ! 3)) (fadd (revenue (rows ! 3)) (ar_collections (rows ! 3)))
     \<and> feq (total_outflows (rows ! 3))
            (fadd (fadd (cogs (rows ! 3)) (payroll (rows ! 3))) (operating_expenses (rows ! 3)))
     \<and> feq (net_cash_flow (rows ! 3)) (fsub (total_inflows (rows ! 3)) (total_outflows (rows ! 3)))
     \<and> feq (ending_balance (rows ! 3)) (fadd (opening_balance (rows ! 3)) (net_cash_flow (rows ! 3)))
     \<and> feq (opening_balance (rows ! 3)) (ending_balance (rows ! 2))"
proof -
  let ?rows = "forecast_loop (init sample_history)
      \<lparr>adj_revenue = 1.00, adj_collections = 1.00, adj_expenses = 1.00\<rparr> ''base'' 0 (Some 500000)
      (date_range_W_MON sample_start 13)"
  have g: "generate_forecast (init sample_history) sample_start 500000 ''base'' = Inr ?rows"
    by (rule generate_forecast_Some [OF scenario_adjustments_base])
  have n: "ending_balance (?rows ! 3) \<noteq> None"
    by (rule sample_history_rows_numbers [OF g]) simp
  have m: "?rows ! 3 \<in> set ?rows"
    by (rule nth_mem) simp
  from row_identities_numbers [OF g m n] balance_continuity_numbers [OF g _ _ n] g
  show ?thesis
    by (intro exI [of _ ?rows]) simp
qed

lemma forecast_loop_no_revenue_fields:
  assumes "\<forall>r \<in> set (historical self). category r \<noteq> ''Revenue''"
    and "row \<in> set (forecast_loop self adj scen i cb weeks)"
  shows "total_inflows row = None \<and> total_outflows row = None
       \<and> net_cash_flow row = None \<and> ending_balance row = None"
proof -
  from forecast_loop_in_set [OF assms(2)] obtain k cb' where
    "row = forecast_row self adj scen (i + k) cb' (weeks ! k)"
    by blast
  then show ?thesis
    by (simp add: forecast_row_identities forecast_revenue_no_revenue_rows [OF assms(1)])
qed

text \<open>
  Claim C1. In every row the four identities of the row must hold, and every row after the
  first must open with the balance the row before it closed with. On the history with
  payroll only the revenue of every row is not a number (the missing revenue default of
  claim C8), so the totals, the net cash flow and the ending balance are not numbers
  either: in the first row none of the four identities holds as a comparison, and the
  second row does not open with the balance the first closed with. The first row does
  open with the caller's balance.
\<close>

theorem missing_revenue_identities_fail:
  "\<exists>rows. generate_forecast (init no_revenue_history) sample_start 500000 ''base'' = Inr rows
     \<and> length rows = 13
     \<and> feq (total_inflows (rows ! 0)) (fadd (revenue (rows ! 0)) (ar_collections (rows ! 0))) = False
     \<and> feq (total_outflows (rows ! 0))
         (fadd (fadd (cogs (rows ! 0)) (payroll (rows ! 0))) (operating_expenses (rows ! 0))) = False
     \<and> feq (net_cash_flow (rows ! 0))
         (fsub (total_inflows (rows ! 0)) (total_outflows (rows ! 0))) = False
     \<and> feq (ending_balance (rows ! 0))
         (fadd (opening_balance (rows ! 0)) (net_cash_flow (rows ! 0))) = False
     \<and> feq (opening_balance (rows ! 1)) (ending_balance (rows ! 0)) = False
     \<and> feq (opening_balance (rows ! 0)) (Some 500000)"
proof -
  let ?rows = "forecast_loop (init no_revenue_history)
      \<lparr>adj_revenue = 1.00, adj_collections = 1.00, adj_expenses = 1.00\<rparr> ''base'' 0 (Some 500000)
      (date_range_W_MON sample_start 13)"
  have g: "generate_forecast (init no_revenue_history) sample_start 500000 ''base'' = Inr ?rows"
    by (rule generate_forecast_Some [OF scenario_adjustments_base])
  have len: "length ?rows = 13"
    by simp
  have "?rows ! 0 \<in> set ?rows"
    by (rule nth_mem) simp
  from forecast_loop_no_revenue_fields [OF historical_no_revenue_history this]
  have none: "total_inflows (?rows ! 0) = None" "total_outflows (?rows ! 0) = None"
    "net_cash_flow (?rows ! 0) = None" "ending_balance (?rows ! 0) = None"
    by simp_all
  from forecast_rows_structure [OF g]
  have "opening_balance (?rows ! 0) = Some 500000"
    by blast
  with none g len show ?thesis
    by (intro exI [of _ ?rows]) simp
qed

section \<open>Scenarios\<close>

lemma forecast_ar_collections_first:
  "forecast_ar_collections (init historical_data) wk 0 =
     fmul (forecast_revenue (init historical_data) wk) (Some 0.30)"
  unfolding forecast_ar_collections_def collection_patterns_init
  by (simp add: timedelta_def Let_def)

lemma rows_scaled_loop:
  "rows_scaled self (forecast_loop self adj scen 0 (Some opening) (date_range_W_MON start_date 13))
     scen (adj_revenue adj) (adj_collections adj) (adj_expenses adj)"
proof -
  let ?rows = "forecast_loop self adj scen 0 (Some opening) (date_range_W_MON start_date 13)"
  have "scenario (?rows ! i) = scen
      \<and> revenue (?rows ! i) =
          fmul (forecast_revenue self (week_start (?rows ! i))) (Some (adj_revenue adj))
      \<and> ar_collections (?rows ! i) =
          fmul (forecast_ar_collections self (week_start (?rows ! i)) i) (Some (adj_collections adj))
      \<and> payroll (?rows ! i) =
          fmul (forecast_payroll self (week_start (?rows ! i))) (Some (adj_expenses adj))
      \<and> operating_expenses (?rows ! i) =
          fmul (forecast_opex self (week_start (?rows ! i))) (Some (adj_expenses adj))"
    if "i < 13" for i
  proof -
    from that have "i < length (date_range_W_MON start_date 13)" by simp
    from forecast_loop_nth [OF this, of self adj scen 0 "Some opening"]
    show ?thesis by simp
  qed
  then show ?thesis
    by (simp add: rows_scaled_def)
qed

text \<open>
  Claim C5. The labels \<open>base\<close>, \<open>best\<close> and \<open>worst\<close> each give 13 rows that carry the label
  and in which the revenue estimate is multiplied by 1.00, 1.15, 0.85, the collections
  estimate by 1.00, 1.10, 0.90, and the payroll and operating-expense estimates by 1.00,
  0.95, 1.05; any other label ends the call with the key error of the failed lookup, and
  no rows.
\<close>

theorem generate_forecast_scenarios:
  "(\<exists>rows. generate_forecast self start_date opening ''base'' = Inr rows
        \<and> rows_scaled self rows ''base'' 1.00 1.00 1.00)
   \<and> (\<exists>rows. generate_forecast self start_date opening ''best'' = Inr rows
        \<and> rows_scaled self rows ''best'' 1.15 1.10 0.95)
   \<and> (\<exists>rows. generate_forecast self start_date opening ''worst'' = Inr rows
        \<and> rows_scaled self rows ''worst'' 0.85 0.90 1.05)
   \<and> (scen \<notin> {''base'', ''best'', ''worst''} \<longrightarrow>
        generate_forecast self start_date opening scen = Inl (KeyError scen))"
proof -
  have base: "\<exists>rows. generate_forecast self start_date opening ''base'' = Inr rows
        \<and> rows_scaled self rows ''base'' 1.00 1.00 1.00"
    using rows_scaled_loop [of self
        "\<lparr>adj_revenue = 1.00, adj_collections = 1.00, adj_expenses = 1.00\<rparr>" "''base''"]
    by (simp add: generate_forecast_Some [OF scenario_adjustments_base])
  have best: "\<exists>rows. generate_forecast self start_date opening ''best'' = Inr rows
        \<and> rows_scaled self rows ''best'' 1.15 1.10 0.95"
    using rows_scaled_loop [of self
        "\<lparr>adj_revenue = 1.15, adj_collections = 1.10, adj_expenses = 0.95\<rparr>" "''best''"]
    by (simp add: generate_forecast_Some [OF scenario_adjustments_best])
  have worst: "\<exists>rows. generate_forecast self start_date opening ''worst'' = Inr rows
        \<and> rows_scaled self rows ''worst'' 0.85 0.90 1.05"
    using rows_scaled_loop [of self
        "\<lparr>adj_revenue = 0.85, adj_collections = 0.90, adj_expenses = 1.05\<rparr>" "''worst''"]
    by (simp add: generate_forecast_Some [OF scenario_adjustments_worst])
  have other: "scen \<notin> {''base'', ''best'', ''worst''} \<longrightarrow>
        generate_forecast self start_date opening scen = Inl (KeyError scen)"
    by (simp add: generate_forecast_def scenario_adjustments_def Let_def)
  from base best worst other show ?thesis by blast
qed

lemma iso_week_eval:
  assumes "toordinal ts = n" and "ord2year n = y" and "isoweek1monday y = m"
    and "0 \<le> (n - m) div 7" and "(n - m) div 7 < 52"
  shows "iso_week ts = (n - m) div 7 + 1"
  using assms by (simp add: iso_week_def Let_def)

lemma ord2year_2024_01_01: "ord2year 738886 = 2024"
  by (simp add: ord2year_def Let_def)

lemma ord2year_2024_01_08: "ord2year 738893 = 2024"
  by (simp add: ord2year_def Let_def)

lemma ord2year_2024_03_04: "ord2year 738949 = 2024"
  by (simp add: ord2year_def Let_def)

lemma isoweek1monday_2024: "isoweek1monday 2024 = 738886"
  by (simp add: isoweek1monday_def days_before_year_def Let_def)

lemma iso_week_2024_01_01: "iso_week 1704067200000000000 = 1"
proof -
  have "toordinal 1704067200000000000 = 738886"
    by (simp add: toordinal_def ns_per_day_def)
  from iso_week_eval [OF this ord2year_2024_01_01 isoweek1monday_2024] show ?thesis
    by simp
qed

lemma iso_week_2024_01_08: "iso_week 1704672000000000000 = 2"
proof -
  have "toordinal 1704672000000000000 = 738893"
    by (simp add: toordinal_def ns_per_day_def)
  from iso_week_eval [OF this ord2year_2024_01_08 isoweek1monday_2024] show ?thesis
    by simp
qed

lemma iso_week_sample_start: "iso_week sample_start = 10"
proof -
  have "toordinal sample_start = 738949"
    by (simp add: toordinal_def ns_per_day_def sample_start_def)
  from iso_week_eval [OF this ord2year_2024_03_04 isoweek1monday_2024] show ?thesis
    by simp
qed

lemma weekday_sample_start: "weekday sample_start = 0"
  by (simp add: weekday_def toordinal_def ns_per_day_def sample_start_def)

lemma sample_history_revenue_week_1:
  "forecast_revenue (init sample_history) sample_start = Some (1442375 / 52)"
proof -
  have "spec_base_revenue (historical (init sample_history)) sample_start = Some 27500"
    by (simp add: spec_base_revenue_def historical_sample_history iso_week_sample_start
          iso_week_2024_01_01 iso_week_2024_01_08)
  moreover have "spec_growth_factor (historical (init sample_history)) sample_start
      = Some (1 + 0.05 * ((9 / 1) / 52))"
    by (simp add: spec_growth_factor_def historical_sample_history sample_start_def ns_per_day_def)
  ultimately show ?thesis
    by (simp add: forecast_revenue_spec)
qed

lemma sample_history_payroll_week_1:
  "forecast_payroll (init sample_history) sample_start = Some 55000"
  by (simp add: sample_history_payroll iso_week_sample_start)

text \<open>
  The first week of the sample forecast in the best case: a revenue estimate of
  27500 * (1 + 0.05 * 9 / 52) = 1442375 / 52 times 1.15, collections of 0.30 of that
  estimate times 1.10, payroll 55000 and operating expenses 12000 times 0.95 each; and
  the label \<open>optimistic\<close> is refused.
\<close>

theorem generate_forecast_scenarios_witness:
  "(\<exists>rows. generate_forecast (init sample_history) sample_start 500000 ''best'' = Inr rows
      \<and> rows_scaled (init sample_history) rows ''best'' 1.15 1.10 0.95
      \<and> week_start (rows ! 0) = sample_start
      \<and> revenue (rows ! 0) = Some (1442375 / 52 * 1.15)
      \<and> ar_collections (rows ! 0) = Some (1442375 / 52 * 0.30 * 1.10)
      \<and> payroll (rows ! 0) = Some (55000 * 0.95)
      \<and> operating_expenses (rows ! 0) = Some (12000 * 0.95))
   \<and> ''optimistic'' \<notin> {''base'', ''best'', ''worst''}
   \<and> generate_forecast (init sample_history) sample_start 500000 ''optimistic''
       = Inl (KeyError ''optimistic'')"
proof -
  from generate_forecast_scenarios [of "init sample_history" sample_start 500000 "''optimistic''"]
  obtain rows where
    g: "generate_forecast (init sample_history) sample_start 500000 ''best'' = Inr rows"
    and scaled: "rows_scaled (init sample_history) rows ''best'' 1.15 1.10 0.95"
    and other: "generate_forecast (init sample_history) sample_start 500000 ''optimistic''
       = Inl (KeyError ''optimistic'')"
    by auto
  from g have "rows = forecast_loop (init sample_history)
      \<lparr>adj_revenue = 1.15, adj_collections = 1.10, adj_expenses = 0.95\<rparr> ''best'' 0 (Some 500000)
      (date_range_W_MON sample_start 13)"
    by (simp add: generate_forecast_Some [OF scenario_adjustments_best])
  moreover have "0 < length (date_range_W_MON sample_start 13)"
    by simp
  ultimately have start: "week_start (rows ! 0) = sample_start"
    by (simp add: forecast_loop_nth nth_date_range_W_MON
          rollforward_MON_on_monday [OF weekday_sample_start])
  from scaled have "revenue (rows ! 0) =
        fmul (forecast_revenue (init sample_history) (week_start (rows ! 0))) (Some 1.15)"
    and "ar_collections (rows ! 0) =
        fmul (forecast_ar_collections (init sample_history) (week_start (rows ! 0)) 0) (Some 1.10)"
    and "payroll (rows ! 0) =
        fmul (forecast_payroll (init sample_history) (week_start (rows ! 0))) (Some 0.95)"
    and "operating_expenses (rows ! 0) =
        fmul (forecast_opex (init sample_history) (week_start (rows ! 0))) (Some 0.95)"
    by (simp_all add: rows_scaled_def)
  then have "revenue (rows ! 0) = Some (1442375 / 52 * 1.15)"
    and "ar_collections (rows ! 0) = Some (1442375 / 52 * 0.30 * 1.10)"
    and "payroll (rows ! 0) = Some (55000 * 0.95)"
    and "operating_expenses (rows ! 0) = Some (12000 * 0.95)"
    by (simp_all add: start sample_history_revenue_week_1 forecast_ar_collections_first
          sample_history_payroll_week_1 sample_history_opex)
  with g scaled start other show ?thesis
    by auto
qed

end
